theory Spec2Isabelle
  imports Main "HOL-Library.Word"
begin

unbundle bit_operations_syntax

section \<open>Machine state\<close>

text \<open>
  The emulator keeps its state in file-scope variables of four modules. They are
  gathered here in one record, each field under the name of the C variable:
  \<^item> \<^verbatim>\<open>motherboard.c\<close>: the arrays \<open>ROM\<close> and \<open>RAM\<close> (0x8000 bytes each, always indexed by
    an address masked with 0x7FFF);
  \<^item> \<^verbatim>\<open>mc6850.c\<close>: the ACIA registers \<open>TDR\<close>, \<open>RDR\<close>, \<open>CR\<close>, \<open>SR\<close>;
  \<^item> \<^verbatim>\<open>cpu6502.c\<close>: \<open>cycles\<close>, \<open>IRQ_PIN_LEVEL\<close>, the registers and the six flag bytes;
  \<^item> \<^verbatim>\<open>terminal.c\<close> and \<^verbatim>\<open>options.c\<close>: \<open>flag_datafile\<close>, the unread rest of the data file
    (\<open>datasize\<close> of the source is its length), \<open>stdin_has_data\<close>, \<open>stdin_value\<close>;
  \<^item> the two output streams, as the bytes written to \<open>stdout\<close> and the text written to
    \<open>stderr\<close>.

  \<open>cycles\<close> is a C \<open>int\<close> (32 bits). It is modelled as an integer without bound, which
  is the C value as long as the counter stays in the range of \<open>int\<close>: \<open>cpu_execute\<close>
  clears it at the start of every step and one step adds at most 15, but \<open>cpu_nmi\<close> adds
  to it without clearing it, so a statement about \<open>cpu_nmi\<close> carries the bound as a
  hypothesis.
\<close>

record machine =
  ROM :: "16 word \<Rightarrow> 8 word"
  RAM :: "16 word \<Rightarrow> 8 word"
  TDR :: "8 word"
  RDR :: "8 word"
  CR :: "8 word"
  SR :: "8 word"
  cycles :: int
  IRQ_PIN_LEVEL :: "8 word"
  A :: "8 word"
  X :: "8 word"
  Y :: "8 word"
  SP :: "8 word"
  PC :: "16 word"
  N_Flag :: "8 word"
  V_Flag :: "8 word"
  D_Flag :: "8 word"
  I_Flag :: "8 word"
  Z_Flag :: "8 word"
  C_Flag :: "8 word"
  flag_datafile :: "8 word"
  datafile :: "8 word list"
  stdin_has_data :: "8 word"
  stdin_value :: int
  stdout :: "8 word list"
  stderr :: string

text \<open>C truth values: \<open>!x\<close>, \<open>x || y\<close> and a comparison give 0 or 1.\<close>

definition lnot :: "'a::len word \<Rightarrow> 'b::len word" where
  "lnot x = (if x = 0 then 1 else 0)"

definition lor :: "'a::len word \<Rightarrow> 'a word \<Rightarrow> 8 word" where
  "lor x y = (if x = 0 then (if y = 0 then 0 else 1) else 1)"

definition of_bool8 :: "bool \<Rightarrow> 8 word" where
  "of_bool8 b = (if b then 1 else 0)"

definition of_bool16 :: "bool \<Rightarrow> 16 word" where
  "of_bool16 b = (if b then 1 else 0)"

section \<open>terminal.c\<close>

definition check_keyboard_ready :: "machine \<Rightarrow> 8 word" where
  "check_keyboard_ready s =
     (if flag_datafile s \<noteq> 0 then of_bool8 (datafile s \<noteq> [])
      else stdin_has_data s)"

text \<open>
  \<open>read_keyboard\<close>: \<open>ch\<close> is an \<open>int\<close>; \<open>fgetc\<close> gives the next byte of the data file as
  a value in 0..255; the result is cast to \<open>uint8_t\<close>.
\<close>

definition read_keyboard :: "machine \<Rightarrow> 8 word \<times> machine" where
  "read_keyboard s =
     (let (ch, s1) =
        (if flag_datafile s \<noteq> 0 then
           (case datafile s of
              [] \<Rightarrow> (0 :: int, s)
            | b # rest \<Rightarrow>
                (uint b,
                 if rest = [] then s\<lparr>datafile := rest, flag_datafile := 0\<rparr>
                 else s\<lparr>datafile := rest\<rparr>))
         else if stdin_has_data s \<noteq> 0 then (stdin_value s, s\<lparr>stdin_has_data := 0\<rparr>)
         else (0, s));
        ch' = (if ch = 0x0A then 0x0D else ch)
      in (word_of_int ch', s1))"

definition write_terminal :: "8 word \<Rightarrow> machine \<Rightarrow> machine" where
  "write_terminal byte s = s\<lparr>stdout := stdout s @ [byte]\<rparr>"

section \<open>mc6850.c\<close>

definition mc6850_reset :: "machine \<Rightarrow> machine" where
  "mc6850_reset s = s\<lparr>TDR := 0x00, RDR := 0x00, CR := 0x00, SR := 0x0E\<rparr>"

definition mc6850_readbyte :: "16 word \<Rightarrow> machine \<Rightarrow> 8 word \<times> machine" where
  "mc6850_readbyte address s =
     (if address AND 0x0800 = 0 then
        (if address AND 0x0001 = 0 then
           (let s1 = (if check_keyboard_ready s \<noteq> 0 then s\<lparr>SR := SR s OR 0x01\<rparr> else s)
            in (SR s1, s1))
         else
           (let (k, s1) = read_keyboard s;
                s2 = s1\<lparr>RDR := k\<rparr>;
                data = RDR s2
            in (data, s2\<lparr>SR := SR s2 AND 0xFE\<rparr>)))
      else (0xFF, s))"

definition mc6850_writebyte :: "16 word \<Rightarrow> 8 word \<Rightarrow> machine \<Rightarrow> machine" where
  "mc6850_writebyte address data s =
     (if address AND 0x0800 = 0 then
        (if address AND 0x0001 = 0 then s\<lparr>CR := data\<rparr>
         else (let s1 = write_terminal data s in s1\<lparr>SR := SR s1 OR 0x02\<rparr>))
      else s)"

section \<open>motherboard.c\<close>

definition ROMMASK :: "16 word" where "ROMMASK = 0x7FFF"
definition RAMMASK :: "16 word" where "RAMMASK = 0x7FFF"

definition rom_readbyte :: "16 word \<Rightarrow> machine \<Rightarrow> 8 word" where
  "rom_readbyte address s = ROM s (address AND ROMMASK)"

definition rom_writebyte :: "16 word \<Rightarrow> 8 word \<Rightarrow> machine \<Rightarrow> machine" where
  "rom_writebyte address data s = s"

definition ram_readbyte :: "16 word \<Rightarrow> machine \<Rightarrow> 8 word" where
  "ram_readbyte address s = RAM s (address AND RAMMASK)"

definition ram_writebyte :: "16 word \<Rightarrow> 8 word \<Rightarrow> machine \<Rightarrow> machine" where
  "ram_writebyte address data s = s\<lparr>RAM := (RAM s)(address AND RAMMASK := data)\<rparr>"

text \<open>
  The address decoder is a \<open>switch\<close> over four ranges with a \<open>default\<close> branch; the
  ranges are tried in the order of the source.
\<close>

definition motherboard_readbyte :: "16 word \<Rightarrow> machine \<Rightarrow> 8 word \<times> machine" where
  "motherboard_readbyte address s =
     (if 0x0000 \<le> address \<and> address \<le> 0x7FFF then (ram_readbyte address s, s)
      else if 0x8000 \<le> address \<and> address \<le> 0xEFFF then (rom_readbyte address s, s)
      else if 0xF000 \<le> address \<and> address \<le> 0xF7FF then mc6850_readbyte address s
      else if 0xF800 \<le> address \<and> address \<le> 0xFFFF then (rom_readbyte address s, s)
      else (0xFF, s))"

definition motherboard_writebyte :: "16 word \<Rightarrow> 8 word \<Rightarrow> machine \<Rightarrow> machine" where
  "motherboard_writebyte address data s =
     (if 0x0000 \<le> address \<and> address \<le> 0x7FFF then ram_writebyte address data s
      else if 0x8000 \<le> address \<and> address \<le> 0xEFFF then rom_writebyte address data s
      else if 0xF000 \<le> address \<and> address \<le> 0xF7FF then mc6850_writebyte address data s
      else if 0xF800 \<le> address \<and> address \<le> 0xFFFF then rom_writebyte address data s
      else s)"

section \<open>cpu6502.c\<close>

definition IRQ_VECTOR :: "16 word" where "IRQ_VECTOR = 0xFFFE"
definition RST_VECTOR :: "16 word" where "RST_VECTOR = 0xFFFC"
definition NMI_VECTOR :: "16 word" where "NMI_VECTOR = 0xFFFA"
definition B_Flag_Mask :: "8 word" where "B_Flag_Mask = 0x10"

definition set_P :: "8 word \<Rightarrow> machine \<Rightarrow> machine" where
  "set_P data s =
     s\<lparr>N_Flag := data AND 0x80, V_Flag := data AND 0x40, D_Flag := data AND 0x08,
       I_Flag := data AND 0x04, Z_Flag := data AND 0x02, C_Flag := data AND 0x01\<rparr>"

definition get_P :: "machine \<Rightarrow> 8 word" where
  "get_P s =
     (let P = 0x20;
          P = (if N_Flag s \<noteq> 0 then P OR 0x80 else P);
          P = (if V_Flag s \<noteq> 0 then P OR 0x40 else P);
          P = (if D_Flag s \<noteq> 0 then P OR 0x08 else P);
          P = (if I_Flag s \<noteq> 0 then P OR 0x04 else P);
          P = (if Z_Flag s \<noteq> 0 then P OR 0x02 else P);
          P = (if C_Flag s \<noteq> 0 then P OR 0x01 else P)
      in P)"

definition word :: "8 word \<Rightarrow> 8 word \<Rightarrow> 16 word" where
  "word high low = push_bit 8 (ucast high) OR ucast low"

definition read_byte :: "16 word \<Rightarrow> machine \<Rightarrow> 8 word \<times> machine" where
  "read_byte address s = motherboard_readbyte address s"

definition write_byte :: "16 word \<Rightarrow> 8 word \<Rightarrow> machine \<Rightarrow> machine" where
  "write_byte address data s = motherboard_writebyte address data s"

definition read_word :: "16 word \<Rightarrow> machine \<Rightarrow> 16 word \<times> machine" where
  "read_word address s =
     (let (low, s1) = read_byte address s;
          (high, s2) = read_byte (address + 1) s1
      in (word high low, s2))"

definition fetch :: "machine \<Rightarrow> 8 word \<times> machine" where
  "fetch s = read_byte (PC s) (s\<lparr>PC := PC s + 1\<rparr>)"

definition fetch16 :: "machine \<Rightarrow> 16 word \<times> machine" where
  "fetch16 s =
     (let (low, s1) = fetch s;
          (high, s2) = fetch s1
      in (word high low, s2))"

definition update_NZ :: "8 word \<Rightarrow> machine \<Rightarrow> machine" where
  "update_NZ data s = s\<lparr>N_Flag := data AND 0x80, Z_Flag := of_bool8 (data = 0)\<rparr>"

definition push :: "8 word \<Rightarrow> machine \<Rightarrow> machine" where
  "push data s =
     (let s1 = write_byte (0x0100 OR ucast (SP s)) data s
      in s1\<lparr>SP := SP s1 - 1\<rparr>)"

definition pop :: "machine \<Rightarrow> 8 word \<times> machine" where
  "pop s =
     (let s1 = s\<lparr>SP := SP s + 1\<rparr>
      in read_byte (0x0100 OR ucast (SP s1)) s1)"

definition push16 :: "16 word \<Rightarrow> machine \<Rightarrow> machine" where
  "push16 data s =
     (let s1 = push (ucast (drop_bit 8 data AND 0xFF)) s
      in push (ucast (data AND 0xFF)) s1)"

definition pop16 :: "machine \<Rightarrow> 16 word \<times> machine" where
  "pop16 s =
     (let (low, s1) = pop s;
          (high, s2) = pop s1
      in (word high low, s2))"

text \<open>
  \<open>compare\<close>: the operands are promoted to \<open>int\<close>, so \<open>a - b\<close> is the integer
  difference; \<open>N_Flag\<close> keeps bit 7 of its low byte.
\<close>

definition compare :: "8 word \<Rightarrow> 8 word \<Rightarrow> machine \<Rightarrow> machine" where
  "compare a b s =
     s\<lparr>C_Flag := of_bool8 (a \<ge> b),
       Z_Flag := of_bool8 (uint a - uint b = 0),
       N_Flag := word_of_int (uint a - uint b) AND 0x80\<rparr>"

definition do_irq :: "16 word \<Rightarrow> machine \<Rightarrow> machine" where
  "do_irq vector s =
     (let s1 = push16 (PC s) s;
          s2 = push (get_P s1) s1;
          s3 = s2\<lparr>I_Flag := 0x01\<rparr>;
          (w, s4) = read_word vector s3;
          s5 = s4\<lparr>PC := w\<rparr>
      in s5\<lparr>cycles := cycles s5 + 7\<rparr>)"

subsection \<open>Addressing modes\<close>

definition absolute :: "machine \<Rightarrow> 16 word \<times> machine" where
  "absolute s = fetch16 s"

definition absoluteX :: "machine \<Rightarrow> 16 word \<times> machine" where
  "absoluteX s = (let (w, s1) = fetch16 s in (w + ucast (X s1), s1))"

definition absoluteX_1 :: "machine \<Rightarrow> 16 word \<times> machine" where
  "absoluteX_1 s =
     (let (address, s1) = fetch16 s;
          e_address = address + ucast (X s1)
      in (e_address,
          if address AND 0xFF00 \<noteq> e_address AND 0xFF00 then s1\<lparr>cycles := cycles s1 + 1\<rparr>
          else s1))"

definition absoluteY :: "machine \<Rightarrow> 16 word \<times> machine" where
  "absoluteY s = (let (w, s1) = fetch16 s in (w + ucast (Y s1), s1))"

definition absoluteY_1 :: "machine \<Rightarrow> 16 word \<times> machine" where
  "absoluteY_1 s =
     (let (address, s1) = fetch16 s;
          e_address = address + ucast (Y s1)
      in (e_address,
          if address AND 0xFF00 \<noteq> e_address AND 0xFF00 then s1\<lparr>cycles := cycles s1 + 1\<rparr>
          else s1))"

definition inmediate :: "machine \<Rightarrow> 16 word \<times> machine" where
  "inmediate s = (PC s, s\<lparr>PC := PC s + 1\<rparr>)"

definition indirect :: "machine \<Rightarrow> 16 word \<times> machine" where
  "indirect s = (let (p, s1) = fetch16 s in read_word p s1)"

definition indirectX :: "machine \<Rightarrow> 16 word \<times> machine" where
  "indirectX s =
     (let (f, s1) = fetch s;
          addr = f + X s1;
          (low, s2) = read_byte (ucast addr) s1;
          (high, s3) = read_byte (ucast (addr + 1)) s2
      in (word high low, s3))"

definition indirectY :: "machine \<Rightarrow> 16 word \<times> machine" where
  "indirectY s =
     (let (addr, s1) = fetch s;
          (low, s2) = read_byte (ucast addr) s1;
          (high, s3) = read_byte (ucast (addr + 1)) s2
      in (word high low + ucast (Y s3), s3))"

definition indirectY_1 :: "machine \<Rightarrow> 16 word \<times> machine" where
  "indirectY_1 s =
     (let (addr, s1) = fetch s;
          (low, s2) = read_byte (ucast addr) s1;
          (high, s3) = read_byte (ucast (addr + 1)) s2;
          e_address = word high low + ucast (Y s3)
      in (e_address,
          if drop_bit 8 e_address \<noteq> ucast high then s3\<lparr>cycles := cycles s3 + 1\<rparr>
          else s3))"

definition zeropage :: "machine \<Rightarrow> 16 word \<times> machine" where
  "zeropage s = (let (f, s1) = fetch s in (ucast f, s1))"

definition zeropageX :: "machine \<Rightarrow> 16 word \<times> machine" where
  "zeropageX s = (let (f, s1) = fetch s in ((ucast f + ucast (X s1)) AND 0x00FF, s1))"

definition zeropageY :: "machine \<Rightarrow> 16 word \<times> machine" where
  "zeropageY s = (let (f, s1) = fetch s in ((ucast f + ucast (Y s1)) AND 0x00FF, s1))"

subsection \<open>Instruction cores\<close>

text \<open>
  \<open>ADC\<close>. \<open>dec_l\<close>, \<open>dec_h\<close> and \<open>aux\<close> are \<open>uint16_t\<close>; the expression assigned to
  \<open>V_Flag\<close> in decimal mode is evaluated in \<open>int\<close> (32 bits) and cut to a byte.
\<close>

definition ADC :: "16 word \<Rightarrow> machine \<Rightarrow> machine" where
  "ADC address s =
     (if D_Flag s \<noteq> 0 then
        (let op1 = A s;
             (op2, s1) = read_byte address s;
             dec_l = (ucast (op1 AND 0x0F) + ucast (op2 AND 0x0F) + of_bool16 (C_Flag s1 \<noteq> 0x00));
             dec_h = (ucast (op1 AND 0xF0) + ucast (op2 AND 0xF0));
             s2 = s1\<lparr>Z_Flag := lnot ((dec_l + dec_h) AND 0xFF)\<rparr>;
             (dec_h, dec_l) = (if dec_l > 0x09 then (dec_h + 0x10, dec_l + 0x06) else (dec_h, dec_l));
             s3 = s2\<lparr>N_Flag := ucast (dec_h AND 0x80)\<rparr>;
             s4 = s3\<lparr>V_Flag := ucast (NOT (ucast op1 XOR ucast op2) AND (ucast op1 XOR ucast dec_h)
                                       AND (0x80 :: 32 word))\<rparr>;
             dec_h = (if dec_h > 0x90 then dec_h + 0x60 else dec_h);
             s5 = s4\<lparr>C_Flag := ucast (drop_bit 8 dec_h)\<rparr>
         in s5\<lparr>A := ucast ((dec_l AND 0x000F) OR (dec_h AND 0x00F0))\<rparr>)
      else
        (let op1 = A s;
             (op2, s1) = read_byte address s;
             aux = (ucast op1 + ucast op2 + of_bool16 (C_Flag s1 \<noteq> 0x00));
             s2 = s1\<lparr>A := ucast (aux AND 0x00FF)\<rparr>;
             s3 = update_NZ (A s2) s2;
             s4 = s3\<lparr>C_Flag := ucast (drop_bit 8 aux)\<rparr>
         in s4\<lparr>V_Flag := of_bool8 (op1 AND 0x80 = op2 AND 0x80 \<and> op1 AND 0x80 \<noteq> A s4 AND 0x80)\<rparr>))"

definition AND_ins :: "16 word \<Rightarrow> machine \<Rightarrow> machine" where
  "AND_ins address s =
     (let (m, s1) = read_byte address s;
          s2 = s1\<lparr>A := A s1 AND m\<rparr>
      in update_NZ (A s2) s2)"

definition ASL :: "16 word \<Rightarrow> machine \<Rightarrow> machine" where
  "ASL address s =
     (let (data, s1) = read_byte address s;
          s2 = s1\<lparr>C_Flag := data AND 0x80\<rparr>;
          data = push_bit 1 data;
          s3 = update_NZ data s2
      in write_byte address data s3)"

definition ASL_ACC :: "machine \<Rightarrow> machine" where
  "ASL_ACC s =
     (let s1 = s\<lparr>C_Flag := A s AND 0x80\<rparr>;
          s2 = s1\<lparr>A := push_bit 1 (A s1)\<rparr>
      in update_NZ (A s2) s2)"

definition BIT :: "16 word \<Rightarrow> machine \<Rightarrow> machine" where
  "BIT address s =
     (let (data, s1) = read_byte address s
      in s1\<lparr>N_Flag := data AND 0x80, V_Flag := data AND 0x40, Z_Flag := lnot (data AND A s1)\<rparr>)"

definition BRK :: "machine \<Rightarrow> machine" where
  "BRK s =
     (let s1 = s\<lparr>PC := PC s + 1\<rparr>;
          s2 = push16 (PC s1) s1;
          s3 = push (get_P s2 OR B_Flag_Mask) s2;
          s4 = s3\<lparr>I_Flag := 0x01\<rparr>;
          (w, s5) = read_word IRQ_VECTOR s4
      in s5\<lparr>PC := w\<rparr>)"

text \<open>
  \<open>BXX\<close>: the displacement is cast to \<open>int8_t\<close> and sign-extended before it is added
  to the 16-bit program counter.
\<close>

definition BXX :: "8 word \<Rightarrow> machine \<Rightarrow> machine" where
  "BXX condition s =
     (let (reljmp, s1) = read_byte (PC s) (s\<lparr>PC := PC s + 1\<rparr>)
      in if condition \<noteq> 0 then
           (let s2 = s1\<lparr>cycles := cycles s1 + 1\<rparr>;
                e_address = PC s2 + scast reljmp;
                s3 = (if e_address AND 0xFF00 \<noteq> PC s2 AND 0xFF00
                      then s2\<lparr>cycles := cycles s2 + 1\<rparr> else s2)
            in s3\<lparr>PC := e_address\<rparr>)
         else s1)"

definition CLC :: "machine \<Rightarrow> machine" where "CLC s = s\<lparr>C_Flag := 0x00\<rparr>"
definition CLD :: "machine \<Rightarrow> machine" where "CLD s = s\<lparr>D_Flag := 0x00\<rparr>"
definition CLI :: "machine \<Rightarrow> machine" where "CLI s = s\<lparr>I_Flag := 0x00\<rparr>"
definition CLV :: "machine \<Rightarrow> machine" where "CLV s = s\<lparr>V_Flag := 0x00\<rparr>"

definition CMP :: "16 word \<Rightarrow> machine \<Rightarrow> machine" where
  "CMP address s = (let (m, s1) = read_byte address s in compare (A s1) m s1)"

definition CPX :: "16 word \<Rightarrow> machine \<Rightarrow> machine" where
  "CPX address s = (let (m, s1) = read_byte address s in compare (X s1) m s1)"

definition CPY :: "16 word \<Rightarrow> machine \<Rightarrow> machine" where
  "CPY address s = (let (m, s1) = read_byte address s in compare (Y s1) m s1)"

definition DEC :: "16 word \<Rightarrow> machine \<Rightarrow> machine" where
  "DEC address s =
     (let (data, s1) = read_byte address s;
          data = data - 1;
          s2 = update_NZ data s1
      in write_byte address data s2)"

definition DEX :: "machine \<Rightarrow> machine" where
  "DEX s = (let s1 = s\<lparr>X := X s - 1\<rparr> in update_NZ (X s1) s1)"

definition DEY :: "machine \<Rightarrow> machine" where
  "DEY s = (let s1 = s\<lparr>Y := Y s - 1\<rparr> in update_NZ (Y s1) s1)"

definition EOR :: "16 word \<Rightarrow> machine \<Rightarrow> machine" where
  "EOR address s =
     (let (m, s1) = read_byte address s;
          s2 = s1\<lparr>A := A s1 XOR m\<rparr>
      in update_NZ (A s2) s2)"

definition INC :: "16 word \<Rightarrow> machine \<Rightarrow> machine" where
  "INC address s =
     (let (data, s1) = read_byte address s;
          data = data + 1;
          s2 = update_NZ data s1
      in write_byte address data s2)"

definition INX :: "machine \<Rightarrow> machine" where
  "INX s = (let s1 = s\<lparr>X := X s + 1\<rparr> in update_NZ (X s1) s1)"

definition INY :: "machine \<Rightarrow> machine" where
  "INY s = (let s1 = s\<lparr>Y := Y s + 1\<rparr> in update_NZ (Y s1) s1)"

definition JMP :: "16 word \<Rightarrow> machine \<Rightarrow> machine" where
  "JMP address s = s\<lparr>PC := address\<rparr>"

definition JSR :: "16 word \<Rightarrow> machine \<Rightarrow> machine" where
  "JSR address s = (let s1 = push16 (PC s - 1) s in s1\<lparr>PC := address\<rparr>)"

definition LDA :: "16 word \<Rightarrow> machine \<Rightarrow> machine" where
  "LDA address s =
     (let (m, s1) = read_byte address s; s2 = s1\<lparr>A := m\<rparr> in update_NZ (A s2) s2)"

definition LDX :: "16 word \<Rightarrow> machine \<Rightarrow> machine" where
  "LDX address s =
     (let (m, s1) = read_byte address s; s2 = s1\<lparr>X := m\<rparr> in update_NZ (X s2) s2)"

definition LDY :: "16 word \<Rightarrow> machine \<Rightarrow> machine" where
  "LDY address s =
     (let (m, s1) = read_byte address s; s2 = s1\<lparr>Y := m\<rparr> in update_NZ (Y s2) s2)"

definition LSR :: "16 word \<Rightarrow> machine \<Rightarrow> machine" where
  "LSR address s =
     (let (data, s1) = read_byte address s;
          s2 = s1\<lparr>C_Flag := data AND 0x01\<rparr>;
          data = drop_bit 1 data;
          s3 = update_NZ data s2
      in write_byte address data s3)"

definition LSR_ACC :: "machine \<Rightarrow> machine" where
  "LSR_ACC s =
     (let s1 = s\<lparr>C_Flag := A s AND 0x01\<rparr>;
          s2 = s1\<lparr>A := drop_bit 1 (A s1)\<rparr>
      in update_NZ (A s2) s2)"

definition ORA :: "16 word \<Rightarrow> machine \<Rightarrow> machine" where
  "ORA address s =
     (let (m, s1) = read_byte address s;
          s2 = s1\<lparr>A := A s1 OR m\<rparr>
      in update_NZ (A s2) s2)"

definition PHA :: "machine \<Rightarrow> machine" where
  "PHA s = push (A s) s"

definition PHP :: "machine \<Rightarrow> machine" where
  "PHP s = push (get_P s OR B_Flag_Mask) s"

definition PLA :: "machine \<Rightarrow> machine" where
  "PLA s = (let (v, s1) = pop s; s2 = s1\<lparr>A := v\<rparr> in update_NZ (A s2) s2)"

definition PLP :: "machine \<Rightarrow> machine" where
  "PLP s = (let (v, s1) = pop s in set_P v s1)"

definition ROL :: "16 word \<Rightarrow> machine \<Rightarrow> machine" where
  "ROL address s =
     (let (data, s1) = read_byte address s;
          oldC_Flag = C_Flag s1;
          s2 = s1\<lparr>C_Flag := data AND 0x80\<rparr>;
          data = push_bit 1 data;
          data = (if oldC_Flag \<noteq> 0 then data OR 0x01 else data);
          s3 = update_NZ data s2
      in write_byte address data s3)"

definition ROL_ACC :: "machine \<Rightarrow> machine" where
  "ROL_ACC s =
     (let oldC_Flag = C_Flag s;
          s1 = s\<lparr>C_Flag := A s AND 0x80\<rparr>;
          s2 = s1\<lparr>A := push_bit 1 (A s1)\<rparr>;
          s3 = (if oldC_Flag \<noteq> 0 then s2\<lparr>A := A s2 OR 0x01\<rparr> else s2)
      in update_NZ (A s3) s3)"

definition ROR :: "16 word \<Rightarrow> machine \<Rightarrow> machine" where
  "ROR address s =
     (let (data, s1) = read_byte address s;
          oldC_Flag = C_Flag s1;
          s2 = s1\<lparr>C_Flag := data AND 0x01\<rparr>;
          data = drop_bit 1 data;
          data = (if oldC_Flag \<noteq> 0 then data OR 0x80 else data);
          s3 = update_NZ data s2
      in write_byte address data s3)"

definition ROR_ACC :: "machine \<Rightarrow> machine" where
  "ROR_ACC s =
     (let oldC_Flag = C_Flag s;
          s1 = s\<lparr>C_Flag := A s AND 0x01\<rparr>;
          s2 = s1\<lparr>A := drop_bit 1 (A s1)\<rparr>;
          s3 = (if oldC_Flag \<noteq> 0 then s2\<lparr>A := A s2 OR 0x80\<rparr> else s2)
      in update_NZ (A s3) s3)"

definition RTI :: "machine \<Rightarrow> machine" where
  "RTI s =
     (let (v, s1) = pop s;
          s2 = set_P v s1;
          (w, s3) = pop16 s2
      in s3\<lparr>PC := w\<rparr>)"

definition RTS :: "machine \<Rightarrow> machine" where
  "RTS s = (let (w, s1) = pop16 s in s1\<lparr>PC := w + 1\<rparr>)"

text \<open>
  \<open>SBC\<close>. In decimal mode the differences are computed in \<open>int\<close> and stored in
  \<open>uint16_t\<close> variables, so a negative difference wraps modulo \<open>2 ^ 16\<close>.
\<close>

definition SBC :: "16 word \<Rightarrow> machine \<Rightarrow> machine" where
  "SBC address s =
     (if D_Flag s \<noteq> 0 then
        (let op1 = A s;
             (op2, s1) = read_byte address s;
             aux = (ucast op1 - ucast op2 - of_bool16 (C_Flag s1 = 0x00));
             dec_l = (ucast (op1 AND 0x0F) - ucast (op2 AND 0x0F) - of_bool16 (C_Flag s1 = 0x00));
             dec_h = (ucast (op1 AND 0xF0) - ucast (op2 AND 0xF0));
             (dec_l, dec_h) = (if dec_l AND 0x10 \<noteq> 0 then (dec_l - 6, dec_h - 1) else (dec_l, dec_h));
             s2 = s1\<lparr>V_Flag := ucast ((ucast op1 XOR ucast op2) AND (ucast op1 XOR ucast aux)
                                       AND (0x80 :: 32 word))\<rparr>;
             s3 = s2\<lparr>C_Flag := lnot (aux AND 0xFF00)\<rparr>;
             s4 = s3\<lparr>Z_Flag := lnot (aux AND 0x00FF)\<rparr>;
             s5 = s4\<lparr>N_Flag := ucast (aux AND 0x0080)\<rparr>;
             dec_h = (if dec_h AND 0x0100 \<noteq> 0 then dec_h - 0x60 else dec_h)
         in s5\<lparr>A := ucast ((dec_l AND 0x0F) OR (dec_h AND 0xF0))\<rparr>)
      else
        (let op1 = A s;
             (m, s1) = read_byte address s;
             op2 = NOT m;
             aux = (ucast op1 + ucast op2 + of_bool16 (C_Flag s1 \<noteq> 0));
             s2 = s1\<lparr>A := ucast (aux AND 0x00FF)\<rparr>;
             s3 = update_NZ (A s2) s2;
             s4 = s3\<lparr>C_Flag := ucast (drop_bit 8 aux)\<rparr>
         in s4\<lparr>V_Flag := of_bool8 (op1 AND 0x80 = op2 AND 0x80 \<and> op1 AND 0x80 \<noteq> A s4 AND 0x80)\<rparr>))"

definition SEC :: "machine \<Rightarrow> machine" where "SEC s = s\<lparr>C_Flag := 0x01\<rparr>"
definition SED :: "machine \<Rightarrow> machine" where "SED s = s\<lparr>D_Flag := 0x01\<rparr>"
definition SEI :: "machine \<Rightarrow> machine" where "SEI s = s\<lparr>I_Flag := 0x01\<rparr>"

definition STA :: "16 word \<Rightarrow> machine \<Rightarrow> machine" where
  "STA address s = write_byte address (A s) s"

definition STX :: "16 word \<Rightarrow> machine \<Rightarrow> machine" where
  "STX address s = write_byte address (X s) s"

definition STY :: "16 word \<Rightarrow> machine \<Rightarrow> machine" where
  "STY address s = write_byte address (Y s) s"

definition TAX :: "machine \<Rightarrow> machine" where
  "TAX s = (let s1 = s\<lparr>X := A s\<rparr> in update_NZ (X s1) s1)"

definition TAY :: "machine \<Rightarrow> machine" where
  "TAY s = (let s1 = s\<lparr>Y := A s\<rparr> in update_NZ (Y s1) s1)"

definition TSX :: "machine \<Rightarrow> machine" where
  "TSX s = (let s1 = s\<lparr>X := SP s\<rparr> in update_NZ (X s1) s1)"

definition TXA :: "machine \<Rightarrow> machine" where
  "TXA s = (let s1 = s\<lparr>A := X s\<rparr> in update_NZ (A s1) s1)"

definition TXS :: "machine \<Rightarrow> machine" where
  "TXS s = s\<lparr>SP := X s\<rparr>"

definition TYA :: "machine \<Rightarrow> machine" where
  "TYA s = (let s1 = s\<lparr>A := Y s\<rparr> in update_NZ (A s1) s1)"

subsection \<open>Reset, the diagnostic and the interrupt pins\<close>

definition cpu_reset :: "machine \<Rightarrow> machine" where
  "cpu_reset s =
     (let s1 = s\<lparr>A := 0x00\<rparr>;
          s2 = s1\<lparr>X := 0x00\<rparr>;
          s3 = s2\<lparr>Y := 0x00\<rparr>;
          s4 = s3\<lparr>SP := 0xFD\<rparr>;
          s5 = set_P 0x36 s4;
          (w, s6) = read_word RST_VECTOR s5
      in s6\<lparr>PC := w\<rparr>)"

text \<open>
  \<open>printf\<close>'s conversion \<open>%0wX\<close>: the value in upper-case hexadecimal, padded with
  zeros on the left to at least \<open>w\<close> digits.
\<close>

definition hex_digit :: "nat \<Rightarrow> char" where
  "hex_digit d = ''0123456789ABCDEF'' ! (d mod 16)"

fun hex_digits :: "nat \<Rightarrow> string" where
  "hex_digits n = (if n < 16 then [hex_digit n] else hex_digits (n div 16) @ [hex_digit (n mod 16)])"

definition printf_0X :: "nat \<Rightarrow> nat \<Rightarrow> string" where
  "printf_0X w n = (let ds = hex_digits n in replicate (w - length ds) CHR ''0'' @ ds)"

text \<open>
  \<open>illegal_opcode\<close>. Both arguments of \<open>fprintf\<close> are \<open>int\<close>s: \<open>opcode\<close> after promotion,
  and \<open>PC - 1\<close>, computed on the promoted \<open>PC\<close>, so that it is \<open>-1\<close> when \<open>PC\<close> is 0.
  \<open>%X\<close> prints its argument as an \<open>unsigned int\<close> (32 bits).
\<close>

definition illegal_opcode :: "8 word \<Rightarrow> machine \<Rightarrow> machine" where
  "illegal_opcode opcode s =
     (let s1 = s\<lparr>stderr := stderr s @
                  [CHR 0x0A] @ ''Error: illegal opcode 0x'' @ printf_0X 2 (nat (uint opcode)) @
                  '' at 0x'' @ printf_0X 4 (nat ((uint (PC s) - 1) mod 2 ^ 32)) @
                  ''. Resseting CPU'' @ [CHR 0x0A]\<rparr>
      in cpu_reset s1)"

definition cpu_irq :: "8 word \<Rightarrow> machine \<Rightarrow> machine" where
  "cpu_irq level s = s\<lparr>IRQ_PIN_LEVEL := level\<rparr>"

definition cpu_nmi :: "machine \<Rightarrow> machine" where
  "cpu_nmi s = do_irq NMI_VECTOR s"

subsection \<open>The opcode switch\<close>

text \<open>
  Every \<open>case\<close> of the switch in \<open>cpu_execute\<close> is one entry of \<open>optable\<close>, in the
  order of the source: \<open>Op f c\<close> for a case that runs \<open>f\<close> and then adds \<open>c\<close> to
  \<open>cycles\<close>, \<open>Illegal\<close> for a case that calls \<open>illegal_opcode(opcode)\<close>. \<open>arg f m\<close>
  is the call \<open>f(m())\<close>: the addressing mode runs first, and the instruction core gets
  its address.
\<close>

datatype action = Op "machine \<Rightarrow> machine" int | Illegal

definition arg :: "(16 word \<Rightarrow> machine \<Rightarrow> machine) \<Rightarrow> (machine \<Rightarrow> 16 word \<times> machine) \<Rightarrow> machine \<Rightarrow> machine" where
  "arg f m s = (let (address, s1) = m s in f address s1)"

definition optable :: "(8 word \<times> action) list" where
  "optable =
    [(0x00, Op BRK 7),
     (0x01, Op (arg ORA indirectX) 6),
     (0x02, Illegal),
     (0x03, Illegal),
     (0x04, Illegal),
     (0x05, Op (arg ORA zeropage) 3),
     (0x06, Op (arg ASL zeropage) 5),
     (0x07, Illegal),
     (0x08, Op PHP 3),
     (0x09, Op (arg ORA inmediate) 2),
     (0x0A, Op ASL_ACC 2),
     (0x0B, Illegal),
     (0x0C, Illegal),
     (0x0D, Op (arg ORA absolute) 4),
     (0x0E, Op (arg ASL absolute) 6),
     (0x0F, Illegal),
     (0x10, Op (\<lambda>s. BXX (lnot (N_Flag s)) s) 2),
     (0x11, Op (arg ORA indirectY_1) 5),
     (0x12, Illegal),
     (0x13, Illegal),
     (0x14, Illegal),
     (0x15, Op (arg ORA zeropageX) 4),
     (0x16, Op (arg ASL zeropageX) 6),
     (0x17, Illegal),
     (0x18, Op CLC 2),
     (0x19, Op (arg ORA absoluteY_1) 4),
     (0x1A, Illegal),
     (0x1B, Illegal),
     (0x1C, Illegal),
     (0x1D, Op (arg ORA absoluteX_1) 4),
     (0x1E, Op (arg ASL absoluteX) 7),
     (0x1F, Illegal),
     (0x20, Op (arg JSR absolute) 6),
     (0x21, Op (arg AND_ins indirectX) 6),
     (0x22, Illegal),
     (0x23, Illegal),
     (0x24, Op (arg BIT zeropage) 3),
     (0x25, Op (arg AND_ins zeropage) 3),
     (0x26, Op (arg ROL zeropage) 5),
     (0x27, Illegal),
     (0x28, Op PLP 4),
     (0x29, Op (arg AND_ins inmediate) 2),
     (0x2A, Op ROL_ACC 2),
     (0x2B, Illegal),
     (0x2C, Op (arg BIT absolute) 4),
     (0x2D, Op (arg AND_ins absolute) 4),
     (0x2E, Op (arg ROL absolute) 6),
     (0x2F, Illegal),
     (0x30, Op (\<lambda>s. BXX (N_Flag s) s) 2),
     (0x31, Op (arg AND_ins indirectY_1) 5),
     (0x32, Illegal),
     (0x33, Illegal),
     (0x34, Illegal),
     (0x35, Op (arg AND_ins zeropageX) 4),
     (0x36, Op (arg ROL zeropageX) 6),
     (0x37, Illegal),
     (0x38, Op SEC 2),
     (0x39, Op (arg AND_ins absoluteY_1) 4),
     (0x3A, Illegal),
     (0x3B, Illegal),
     (0x3C, Illegal),
     (0x3D, Op (arg AND_ins absoluteX_1) 4),
     (0x3E, Op (arg ROL absoluteX) 7),
     (0x3F, Illegal),
     (0x40, Op RTI 6),
     (0x41, Op (arg EOR indirectX) 6),
     (0x42, Illegal),
     (0x43, Illegal),
     (0x44, Illegal),
     (0x45, Op (arg EOR zeropage) 3),
     (0x46, Op (arg LSR zeropage) 5),
     (0x47, Illegal),
     (0x48, Op PHA 3),
     (0x49, Op (arg EOR inmediate) 2),
     (0x4A, Op LSR_ACC 2),
     (0x4B, Illegal),
     (0x4C, Op (arg JMP absolute) 3),
     (0x4D, Op (arg EOR absolute) 4),
     (0x4E, Op (arg LSR absolute) 6),
     (0x4F, Illegal),
     (0x50, Op (\<lambda>s. BXX (lnot (V_Flag s)) s) 2),
     (0x51, Op (arg EOR indirectY_1) 5),
     (0x52, Illegal),
     (0x53, Illegal),
     (0x54, Illegal),
     (0x55, Op (arg EOR zeropageX) 4),
     (0x56, Op (arg LSR zeropageX) 6),
     (0x57, Illegal),
     (0x58, Op CLI 2),
     (0x59, Op (arg EOR absoluteY_1) 4),
     (0x5A, Illegal),
     (0x5B, Illegal),
     (0x5C, Illegal),
     (0x5D, Op (arg EOR absoluteX_1) 4),
     (0x5E, Op (arg LSR absoluteX) 7),
     (0x5F, Illegal),
     (0x60, Op RTS 6),
     (0x61, Op (arg ADC indirectX) 6),
     (0x62, Illegal),
     (0x63, Illegal),
     (0x64, Illegal),
     (0x65, Op (arg ADC zeropage) 3),
     (0x66, Op (arg ROR zeropage) 5),
     (0x67, Illegal),
     (0x68, Op PLA 4),
     (0x69, Op (arg ADC inmediate) 2),
     (0x6A, Op ROR_ACC 2),
     (0x6B, Illegal),
     (0x6C, Op (arg JMP indirect) 5),
     (0x6D, Op (arg ADC absolute) 4),
     (0x6E, Op (arg ROR absolute) 6),
     (0x6F, Illegal),
     (0x70, Op (\<lambda>s. BXX (V_Flag s) s) 2),
     (0x71, Op (arg ADC indirectY_1) 5),
     (0x72, Illegal),
     (0x73, Illegal),
     (0x74, Illegal),
     (0x75, Op (arg ADC zeropageX) 4),
     (0x76, Op (arg ROR zeropageX) 6),
     (0x77, Illegal),
     (0x78, Op SEI 2),
     (0x79, Op (arg ADC absoluteY_1) 4),
     (0x7A, Illegal),
     (0x7B, Illegal),
     (0x7C, Illegal),
     (0x7D, Op (arg ADC absoluteX_1) 4),
     (0x7E, Op (arg ROR absoluteX) 7),
     (0x7F, Illegal),
     (0x80, Illegal),
     (0x81, Op (arg STA indirectX) 6),
     (0x82, Illegal),
     (0x83, Illegal),
     (0x84, Op (arg STY zeropage) 3),
     (0x85, Op (arg STA zeropage) 3),
     (0x86, Op (arg STX zeropage) 3),
     (0x87, Illegal),
     (0x88, Op DEY 2),
     (0x89, Illegal),
     (0x8A, Op TXA 2),
     (0x8B, Illegal),
     (0x8C, Op (arg STY absolute) 4),
     (0x8D, Op (arg STA absolute) 4),
     (0x8E, Op (arg STX absolute) 4),
     (0x8F, Illegal),
     (0x90, Op (\<lambda>s. BXX (lnot (C_Flag s)) s) 2),
     (0x91, Op (arg STA indirectY) 6),
     (0x92, Illegal),
     (0x93, Illegal),
     (0x94, Op (arg STY zeropageX) 4),
     (0x95, Op (arg STA zeropageX) 4),
     (0x96, Op (arg STX zeropageY) 4),
     (0x97, Illegal),
     (0x98, Op TYA 2),
     (0x99, Op (arg STA absoluteY) 5),
     (0x9A, Op TXS 2),
     (0x9B, Illegal),
     (0x9C, Illegal),
     (0x9D, Op (arg STA absoluteX) 5),
     (0x9E, Illegal),
     (0x9F, Illegal),
     (0xA0, Op (arg LDY inmediate) 2),
     (0xA1, Op (arg LDA indirectX) 6),
     (0xA2, Op (arg LDX inmediate) 2),
     (0xA3, Illegal),
     (0xA4, Op (arg LDY zeropage) 3),
     (0xA5, Op (arg LDA zeropage) 3),
     (0xA6, Op (arg LDX zeropage) 3),
     (0xA7, Illegal),
     (0xA8, Op TAY 2),
     (0xA9, Op (arg LDA inmediate) 2),
     (0xAA, Op TAX 2),
     (0xAB, Illegal),
     (0xAC, Op (arg LDY absolute) 4),
     (0xAD, Op (arg LDA absolute) 4),
     (0xAE, Op (arg LDX absolute) 4),
     (0xAF, Illegal),
     (0xB0, Op (\<lambda>s. BXX (C_Flag s) s) 2),
     (0xB1, Op (arg LDA indirectY_1) 5),
     (0xB2, Illegal),
     (0xB3, Illegal),
     (0xB4, Op (arg LDY zeropageX) 4),
     (0xB5, Op (arg LDA zeropageX) 4),
     (0xB6, Op (arg LDX zeropageY) 4),
     (0xB7, Illegal),
     (0xB8, Op CLV 2),
     (0xB9, Op (arg LDA absoluteY_1) 4),
     (0xBA, Op TSX 2),
     (0xBB, Illegal),
     (0xBC, Op (arg LDY absoluteX_1) 4),
     (0xBD, Op (arg LDA absoluteX_1) 4),
     (0xBE, Op (arg LDX absoluteY_1) 4),
     (0xBF, Illegal),
     (0xC0, Op (arg CPY inmediate) 2),
     (0xC1, Op (arg CMP indirectX) 6),
     (0xC2, Illegal),
     (0xC3, Illegal),
     (0xC4, Op (arg CPY zeropage) 3),
     (0xC5, Op (arg CMP zeropage) 3),
     (0xC6, Op (arg DEC zeropage) 5),
     (0xC7, Illegal),
     (0xC8, Op INY 2),
     (0xC9, Op (arg CMP inmediate) 2),
     (0xCA, Op DEX 2),
     (0xCB, Illegal),
     (0xCC, Op (arg CPY absolute) 4),
     (0xCD, Op (arg CMP absolute) 4),
     (0xCE, Op (arg DEC absolute) 6),
     (0xCF, Illegal),
     (0xD0, Op (\<lambda>s. BXX (lnot (Z_Flag s)) s) 2),
     (0xD1, Op (arg CMP indirectY_1) 5),
     (0xD2, Illegal),
     (0xD3, Illegal),
     (0xD4, Illegal),
     (0xD5, Op (arg CMP zeropageX) 4),
     (0xD6, Op (arg DEC zeropageX) 6),
     (0xD7, Illegal),
     (0xD8, Op CLD 2),
     (0xD9, Op (arg CMP absoluteY_1) 4),
     (0xDA, Illegal),
     (0xDB, Illegal),
     (0xDC, Illegal),
     (0xDD, Op (arg CMP absoluteX_1) 4),
     (0xDE, Op (arg DEC absoluteX) 7),
     (0xDF, Illegal),
     (0xE0, Op (arg CPX inmediate) 2),
     (0xE1, Op (arg SBC indirectX) 6),
     (0xE2, Illegal),
     (0xE3, Illegal),
     (0xE4, Op (arg CPX zeropage) 3),
     (0xE5, Op (arg SBC zeropage) 3),
     (0xE6, Op (arg INC zeropage) 5),
     (0xE7, Illegal),
     (0xE8, Op INX 2),
     (0xE9, Op (arg SBC inmediate) 2),
     (0xEA, Op (\<lambda>s. s) 2),
     (0xEB, Illegal),
     (0xEC, Op (arg CPX absolute) 4),
     (0xED, Op (arg SBC absolute) 4),
     (0xEE, Op (arg INC absolute) 6),
     (0xEF, Illegal),
     (0xF0, Op (\<lambda>s. BXX (Z_Flag s) s) 2),
     (0xF1, Op (arg SBC indirectY_1) 5),
     (0xF2, Illegal),
     (0xF3, Illegal),
     (0xF4, Illegal),
     (0xF5, Op (arg SBC zeropageX) 4),
     (0xF6, Op (arg INC zeropageX) 6),
     (0xF7, Illegal),
     (0xF8, Op SED 2),
     (0xF9, Op (arg SBC absoluteY_1) 4),
     (0xFA, Illegal),
     (0xFB, Illegal),
     (0xFC, Illegal),
     (0xFD, Op (arg SBC absoluteX_1) 4),
     (0xFE, Op (arg INC absoluteX) 7),
     (0xFF, Illegal)]"

definition dispatch :: "8 word \<Rightarrow> machine \<Rightarrow> machine" where
  "dispatch opcode s =
     (case map_of optable opcode of
        Some (Op f c) \<Rightarrow> (let s1 = f s in s1\<lparr>cycles := cycles s1 + c\<rparr>)
      | Some Illegal \<Rightarrow> illegal_opcode opcode s
      | None \<Rightarrow> s)"

text \<open>\<open>cpu_execute\<close> returns the cycle count; the model returns it with the new state.\<close>

definition cpu_execute :: "machine \<Rightarrow> int \<times> machine" where
  "cpu_execute s =
     (let s0 = s\<lparr>cycles := 0\<rparr>;
          s1 = (if lnot (lor (IRQ_PIN_LEVEL s0) (I_Flag s0)) \<noteq> (0 :: 8 word)
                then do_irq IRQ_VECTOR s0 else s0);
          (opcode, s2) = read_byte (PC s1) (s1\<lparr>PC := PC s1 + 1\<rparr>);
          s3 = dispatch opcode s2
      in (cycles s3, s3))"

section \<open>motherboard.c: reset\<close>

definition motherboard_reset :: "machine \<Rightarrow> machine" where
  "motherboard_reset s = cpu_reset (mc6850_reset s)"

section \<open>States used as examples\<close>

text \<open>
  The machine before \<open>main\<close> calls \<open>motherboard_reset\<close>: the ROM image loaded, every
  other static variable zero but \<open>IRQ_PIN_LEVEL\<close>, which the source initialises to 1.
\<close>

definition power_on :: "(16 word \<Rightarrow> 8 word) \<Rightarrow> machine" where
  "power_on rom =
     \<lparr>ROM = rom, RAM = (\<lambda>_. 0), TDR = 0, RDR = 0, CR = 0, SR = 0, cycles = 0,
      IRQ_PIN_LEVEL = 1, A = 0, X = 0, Y = 0, SP = 0, PC = 0,
      N_Flag = 0, V_Flag = 0, D_Flag = 0, I_Flag = 0, Z_Flag = 0, C_Flag = 0,
      flag_datafile = 0, datafile = [], stdin_has_data = 0, stdin_value = 0,
      stdout = [], stderr = []\<rparr>"

text \<open>
  The NMI vector points to 0x0300, where RAM holds a \<open>NOP\<close>; the CPU is at 0x1234 with
  interrupts disabled.
\<close>

definition nmi_example :: machine where
  "nmi_example =
     (power_on ((\<lambda>_. 0)(0x7FFA := 0x00, 0x7FFB := 0x03)))
       \<lparr>RAM := (\<lambda>_. 0)(0x0300 := 0xEA), SP := 0xFD, PC := 0x1234, I_Flag := 0x04\<rparr>"

text \<open>
  The IRQ line is asserted and interrupts are enabled; the IRQ vector points to 0x0200,
  where RAM holds a \<open>NOP\<close>; the CPU is at 0x1234.
\<close>

definition irq_example :: machine where
  "irq_example =
     (power_on ((\<lambda>_. 0)(0x7FFE := 0x00, 0x7FFF := 0x02)))
       \<lparr>RAM := (\<lambda>_. 0)(0x0200 := 0xEA), SP := 0xFD, PC := 0x1234, IRQ_PIN_LEVEL := 0\<rparr>"

text \<open>The ACIA after a reset, with the key \<open>A\<close> waiting in the interactive keyboard source.\<close>

definition acia_example :: machine where
  "acia_example = (power_on (\<lambda>_. 0))\<lparr>SR := 0x0E, stdin_has_data := 1, stdin_value := 0x41\<rparr>"

section \<open>Notions the claims use\<close>

text \<open>
  The device an address decodes to: the four ranges of the decoder's \<open>switch\<close> in their
  order, with its \<open>default\<close> branch, and inside the ACIA's range the select test of
  \<open>mc6850_readbyte\<close> and \<open>mc6850_writebyte\<close> (bit 11 of the address clear).
\<close>

datatype device = RAM_device | ROM_device | ACIA_device | No_device

definition bus_device :: "16 word \<Rightarrow> device" where
  "bus_device address =
     (if 0x0000 \<le> address \<and> address \<le> 0x7FFF then RAM_device
      else if 0x8000 \<le> address \<and> address \<le> 0xEFFF then ROM_device
      else if 0xF000 \<le> address \<and> address \<le> 0xF7FF then
        (if address AND 0x0800 = 0 then ACIA_device else No_device)
      else if 0xF800 \<le> address \<and> address \<le> 0xFFFF then ROM_device
      else No_device)"

text \<open>A step services an IRQ when the line is low and interrupts are enabled.\<close>

definition irq_serviced :: "machine \<Rightarrow> bool" where
  "irq_serviced s = (IRQ_PIN_LEVEL s = 0 \<and> I_Flag s = 0)"

text \<open>
  The state in which \<open>cpu_execute\<close> fetches its opcode: the cycle counter cleared and,
  when an IRQ is serviced, the entry sequence performed.
\<close>

definition at_fetch :: "machine \<Rightarrow> machine" where
  "at_fetch s =
     (if irq_serviced s then do_irq IRQ_VECTOR (s\<lparr>cycles := 0\<rparr>) else s\<lparr>cycles := 0\<rparr>)"

text \<open>
  The documented instruction set of the 6502, by mnemonic (ADC, AND, ASL, the branches
  with BIT and BRK, the flag clears, CMP, CPX, CPY, DEC/DEX/DEY, EOR, INC/INX/INY,
  JMP/JSR, LDA, LDX, LDY, LSR, NOP, ORA, the stack instructions, ROL, ROR, RTI/RTS, SBC,
  the flag sets, STA, STX, STY, the transfers): 151 opcodes.
\<close>

definition documented_opcodes :: "8 word list" where
  "documented_opcodes =
     [0x69, 0x65, 0x75, 0x6D, 0x7D, 0x79, 0x61, 0x71,
      0x29, 0x25, 0x35, 0x2D, 0x3D, 0x39, 0x21, 0x31,
      0x0A, 0x06, 0x16, 0x0E, 0x1E,
      0x90, 0xB0, 0xF0, 0x24, 0x2C, 0x30, 0xD0, 0x10, 0x00, 0x50, 0x70,
      0x18, 0xD8, 0x58, 0xB8,
      0xC9, 0xC5, 0xD5, 0xCD, 0xDD, 0xD9, 0xC1, 0xD1,
      0xE0, 0xE4, 0xEC,
      0xC0, 0xC4, 0xCC,
      0xC6, 0xD6, 0xCE, 0xDE, 0xCA, 0x88,
      0x49, 0x45, 0x55, 0x4D, 0x5D, 0x59, 0x41, 0x51,
      0xE6, 0xF6, 0xEE, 0xFE, 0xE8, 0xC8,
      0x4C, 0x6C, 0x20,
      0xA9, 0xA5, 0xB5, 0xAD, 0xBD, 0xB9, 0xA1, 0xB1,
      0xA2, 0xA6, 0xB6, 0xAE, 0xBE,
      0xA0, 0xA4, 0xB4, 0xAC, 0xBC,
      0x4A, 0x46, 0x56, 0x4E, 0x5E,
      0xEA,
      0x09, 0x05, 0x15, 0x0D, 0x1D, 0x19, 0x01, 0x11,
      0x48, 0x08, 0x68, 0x28,
      0x2A, 0x26, 0x36, 0x2E, 0x3E,
      0x6A, 0x66, 0x76, 0x6E, 0x7E,
      0x40, 0x60,
      0xE9, 0xE5, 0xF5, 0xED, 0xFD, 0xF9, 0xE1, 0xF1,
      0x38, 0xF8, 0x78,
      0x85, 0x95, 0x8D, 0x9D, 0x99, 0x81, 0x91,
      0x86, 0x96, 0x8E,
      0x84, 0x94, 0x8C,
      0xAA, 0xA8, 0xBA, 0x8A, 0x9A, 0x98]"

text \<open>The eight conditional branches, and the condition each of them tests.\<close>

definition branch_opcodes :: "8 word list" where
  "branch_opcodes = [0x10, 0x30, 0x50, 0x70, 0x90, 0xB0, 0xD0, 0xF0]"

definition branch_taken :: "8 word \<Rightarrow> machine \<Rightarrow> bool" where
  "branch_taken opcode s =
     (if opcode = 0x10 then N_Flag s = 0
      else if opcode = 0x30 then N_Flag s \<noteq> 0
      else if opcode = 0x50 then V_Flag s = 0
      else if opcode = 0x70 then V_Flag s \<noteq> 0
      else if opcode = 0x90 then C_Flag s = 0
      else if opcode = 0xB0 then C_Flag s \<noteq> 0
      else if opcode = 0xD0 then Z_Flag s = 0
      else Z_Flag s \<noteq> 0)"

text \<open>
  The cycles of a branch: 2 when it is not taken, 3 when it is taken within the page of
  \<open>pc\<close> (the program counter behind the operand), 4 when the target is in another page.
\<close>

definition branch_cost :: "bool \<Rightarrow> 16 word \<Rightarrow> 8 word \<Rightarrow> int" where
  "branch_cost taken pc reljmp =
     (if \<not> taken then 2
      else if (pc + scast reljmp) AND 0xFF00 = pc AND 0xFF00 then 3
      else 4)"

text \<open>
  An erased ROM (every byte 0xFF) after the reset: the reset vector reads 0xFFFF, and
  the byte there is 0xFF.
\<close>

definition erased_rom_reset :: machine where
  "erased_rom_reset = motherboard_reset (power_on (\<lambda>_. 0xFF))"

text \<open>After a reset through a vector of 0x0000, with the illegal opcode 0x02 at 0x0000.\<close>

definition illegal_example :: machine where
  "illegal_example =
     motherboard_reset ((power_on (\<lambda>_. 0))\<lparr>RAM := (\<lambda>_. 0)(0x0000 := 0x02)\<rparr>)"

text \<open>
  The branch scenario: \<open>LDA #$00; BEQ +16\<close> at 0x00F0, entered by a reset through a
  vector of 0x00F0.
\<close>

definition branch_example :: machine where
  "branch_example =
     motherboard_reset
       ((power_on ((\<lambda>_. 0)(0x7FFC := 0xF0, 0x7FFD := 0x00)))
          \<lparr>RAM := (\<lambda>_. 0)(0x00F0 := 0xA9, 0x00F1 := 0x00, 0x00F2 := 0xF0, 0x00F3 := 0x10)\<rparr>)"

text \<open>
  The IRQ line is asserted and interrupts are enabled; at the IRQ handler's address
  0x0200 stands \<open>BNE +16\<close>, and the Z flag is set, so the branch is not taken.
\<close>

definition branch_irq_example :: machine where
  "branch_irq_example =
     (power_on ((\<lambda>_. 0)(0x7FFE := 0x00, 0x7FFF := 0x02)))
       \<lparr>RAM := (\<lambda>_. 0)(0x0200 := 0xD0, 0x0201 := 0x10), SP := 0xFD, PC := 0x1234,
         IRQ_PIN_LEVEL := 0, Z_Flag := 0x02\<rparr>"

text \<open>
  The subroutine scenario: \<open>JSR $0006\<close> at 0x0000 and \<open>RTS\<close> at 0x0006, entered by a
  reset through a vector of 0x0000.
\<close>

definition jsr_example :: machine where
  "jsr_example =
     motherboard_reset
       ((power_on (\<lambda>_. 0))
          \<lparr>RAM := (\<lambda>_. 0)(0x0000 := 0x20, 0x0001 := 0x06, 0x0002 := 0x00, 0x0006 := 0x60)\<rparr>)"

section \<open>Packed BCD\<close>

text \<open>
  A byte is valid BCD when both nibbles are decimal digits; \<open>dec\<close> reads it as a
  two-digit decimal number, and \<open>to_bcd\<close> packs a number below 100 into a byte.
\<close>

definition valid_bcd :: "8 word \<Rightarrow> bool" where
  "valid_bcd b = (drop_bit 4 b \<le> 9 \<and> b AND 0x0F \<le> 9)"

definition dec :: "8 word \<Rightarrow> nat" where
  "dec b = 10 * unat (drop_bit 4 b) + unat (b AND 0x0F)"

definition to_bcd :: "nat \<Rightarrow> 8 word" where
  "to_bcd n = of_nat (16 * (n div 10) + n mod 10)"

text \<open>
  The decimal branch of \<open>ADC\<close> in three parts: the sum of the low nibbles and the
  carry (\<open>dec_l\<close>), its low nibble after the adjustment, and the sum of the high
  nibbles (\<open>dec_h\<close>) after both adjustments, \<open>k\<close> telling whether the low sum exceeded 9.
\<close>

definition digits :: "8 word list" where
  "digits = [0, 1, 2, 3, 4, 5, 6, 7, 8, 9]"

definition adc_lo :: "8 word \<Rightarrow> 8 word \<Rightarrow> bool \<Rightarrow> 16 word" where
  "adc_lo x y c = ucast x + ucast y + of_bool16 c"

definition adc_lo_adj :: "16 word \<Rightarrow> 16 word" where
  "adc_lo_adj dl = (if dl > 0x09 then dl + 0x06 else dl) AND 0x000F"

definition adc_hi :: "8 word \<Rightarrow> 8 word \<Rightarrow> bool \<Rightarrow> 16 word" where
  "adc_hi h1 h2 k =
     (let dh = ucast h1 + ucast h2 + (if k then 0x10 else 0)
      in if dh > 0x90 then dh + 0x60 else dh)"

text \<open>The decimal scenario's operands: \<open>A\<close> holds 0x15, the byte at 0x0005 is 0x27.\<close>

definition adc_example :: machine where
  "adc_example =
     (power_on (\<lambda>_. 0))\<lparr>RAM := (\<lambda>_. 0)(0x0005 := 0x27), A := 0x15, D_Flag := 0x01\<rparr>"


section \<open>Bytes, words and the stack page\<close>

declare hex_digits.simps [simp del]

lemma ucast8_mask: "(ucast (b :: 8 word) :: 16 word) AND 0xFF = ucast b"
proof -
  have "(ucast b :: 16 word) = ucast (take_bit 8 b)" by (simp add: take_bit_word_eq_self)
  also have "\<dots> = take_bit 8 (ucast b)" by (simp only: unsigned_take_bit_eq)
  also have "\<dots> = ucast b AND 0xFF" by (simp add: take_bit_eq_mask mask_eq_exp_minus_1)
  finally show ?thesis by simp
qed

lemma stack_addr_mask:
  "(0x0100 OR ucast (sp :: 8 word)) AND (0x7FFF :: 16 word) = 0x0100 OR ucast sp"
proof -
  have "(0x0100 OR (ucast sp AND 0xFF)) AND (0x7FFF :: 16 word) = 0x0100 OR (ucast sp AND 0xFF)"
    by (simp add: bit.conj_disj_distrib2 word_bw_assocs)
  then show ?thesis by (simp only: ucast8_mask)
qed

lemma stack_addr_le: "(0x0100 OR ucast (sp :: 8 word)) \<le> (0x7FFF :: 16 word)"
proof -
  have "(0x0100 OR ucast sp) AND (0x7FFF :: 16 word) \<le> 0x7FFF"
    by (rule word_and_le1)
  then show ?thesis by (simp only: stack_addr_mask)
qed

lemma low_byte: "(ucast (w AND 0xFF :: 16 word) :: 8 word) = ucast w"
proof -
  have m: "(0xFF :: 16 word) = mask 8" by (simp add: mask_eq_exp_minus_1)
  show ?thesis unfolding m by (rule bit_word_eqI) (auto simp: bit_simps)
qed

text \<open>Page one is RAM: a push writes the RAM array, a pop reads it.\<close>

lemma write_byte_stack:
  "write_byte (0x0100 OR ucast (sp :: 8 word)) d s = s\<lparr>RAM := (RAM s)(0x0100 OR ucast sp := d)\<rparr>"
  by (simp add: write_byte_def motherboard_writebyte_def ram_writebyte_def RAMMASK_def
      stack_addr_le stack_addr_mask)

lemma read_byte_stack:
  "read_byte (0x0100 OR ucast (sp :: 8 word)) s = (RAM s (0x0100 OR ucast sp), s)"
  by (simp add: read_byte_def motherboard_readbyte_def ram_readbyte_def RAMMASK_def
      stack_addr_le stack_addr_mask)

lemma push_eq:
  "push d s = s\<lparr>RAM := (RAM s)(0x0100 OR ucast (SP s) := d), SP := SP s - 1\<rparr>"
  by (simp add: push_def write_byte_stack)

lemma push16_eq:
  "push16 w s = s\<lparr>RAM := (RAM s)(0x0100 OR ucast (SP s) := ucast (drop_bit 8 w),
                                  0x0100 OR ucast (SP s - 1) := ucast w), SP := SP s - 2\<rparr>"
  by (simp add: push16_def push_eq low_byte)

text \<open>The three vectors lie in the upper ROM range; reading them leaves the state alone.\<close>

lemma read_word_vec:
  "read_word 0xFFFE s = (word (ROM s 0x7FFF) (ROM s 0x7FFE), s)"
  "read_word 0xFFFC s = (word (ROM s 0x7FFD) (ROM s 0x7FFC), s)"
  "read_word 0xFFFA s = (word (ROM s 0x7FFB) (ROM s 0x7FFA), s)"
  by (simp_all add: read_word_def read_byte_def motherboard_readbyte_def rom_readbyte_def ROMMASK_def)

lemma get_P_bit4: "get_P s AND 0x10 = 0"
  by (simp add: get_P_def Let_def)

lemma get_P_bit5: "get_P s AND 0x20 = 0x20"
  by (simp add: get_P_def Let_def)

lemma get_P_frame [simp]:
  "get_P (s\<lparr>RAM := r\<rparr>) = get_P s"
  "get_P (s\<lparr>SP := p\<rparr>) = get_P s"
  "get_P (s\<lparr>cycles := c\<rparr>) = get_P s"
  by (simp_all add: get_P_def)

lemma do_irq_IRQ:
  "do_irq 0xFFFE s =
     s\<lparr>RAM := (RAM s)(0x0100 OR ucast (SP s) := ucast (drop_bit 8 (PC s)),
                      0x0100 OR ucast (SP s - 1) := ucast (PC s),
                      0x0100 OR ucast (SP s - 2) := get_P s),
       SP := SP s - 3, I_Flag := 0x01,
       PC := word (ROM s 0x7FFF) (ROM s 0x7FFE),
       cycles := cycles s + 7\<rparr>"
  by (simp add: do_irq_def push16_eq push_eq read_word_vec)

lemma do_irq_NMI:
  "do_irq 0xFFFA s =
     s\<lparr>RAM := (RAM s)(0x0100 OR ucast (SP s) := ucast (drop_bit 8 (PC s)),
                      0x0100 OR ucast (SP s - 1) := ucast (PC s),
                      0x0100 OR ucast (SP s - 2) := get_P s),
       SP := SP s - 3, I_Flag := 0x01,
       PC := word (ROM s 0x7FFB) (ROM s 0x7FFA),
       cycles := cycles s + 7\<rparr>"
  by (simp add: do_irq_def push16_eq push_eq read_word_vec)

lemma optable_EA: "map_of optable 0xEA = Some (Op (\<lambda>s. s) 2)"
  by (simp add: optable_def)

section \<open>The address decoder\<close>

text \<open>No address of the ACIA window 0xF000..0xF7FF has bit 11 set.\<close>

lemma acia_window_bit11:
  assumes "(0xF000 :: 16 word) \<le> a" "a \<le> 0xF7FF"
  shows "a AND 0x0800 = 0"
proof -
  have u: "61440 \<le> unat a" "unat a \<le> 63487"
    using assms by (simp_all add: word_le_nat_alt)
  have "unat (a div 2 ^ 11) = unat a div 2048"
    by (simp add: unat_div)
  also have "\<dots> = 30" using u by linarith
  finally have "unat (a div 2 ^ 11) = 30" .
  then have "a div 2 ^ 11 = 30"
    by (simp add: word_unat_eq_iff)
  then have "\<not> bit a 11" by (simp add: bit_iff_odd)
  then have "a AND 2 ^ 11 = 0" by (simp only: and_exp_eq_0_iff_not_bit not_False_eq_True)
  then show ?thesis by simp
qed

text \<open>
  The ranges of the decoder cover every address, and none decodes to no device; a read
  and a write are those of the device the address decodes to.
\<close>

lemma decoder_ranges:
  fixes a :: "16 word"
  shows "(\<not> a \<le> 0x7FFF) = (0x8000 \<le> a)"
    and "(\<not> a \<le> 0xEFFF) = (0xF000 \<le> a)"
    and "(\<not> a \<le> 0xF7FF) = (0xF800 \<le> a)"
    and "a \<le> 0xFFFF"
proof -
  have "unat a < 2 ^ 16" using unsigned_less [of a] by simp
  then show "a \<le> 0xFFFF" by (simp add: word_le_nat_alt)
  show "(\<not> a \<le> 0x7FFF) = (0x8000 \<le> a)" by (simp add: word_le_nat_alt) linarith
  show "(\<not> a \<le> 0xEFFF) = (0xF000 \<le> a)" by (simp add: word_le_nat_alt) linarith
  show "(\<not> a \<le> 0xF7FF) = (0xF800 \<le> a)" by (simp add: word_le_nat_alt) linarith
qed

lemma bus_device_mapped: "bus_device a \<noteq> No_device"
proof (cases "0xF000 \<le> a \<and> a \<le> 0xF7FF")
  case True
  then have "a AND 0x0800 = 0" by (simp add: acia_window_bit11)
  with True show ?thesis
    using decoder_ranges(1,2) [of a] by (auto simp add: bus_device_def)
next
  case False
  then show ?thesis
    using decoder_ranges [of a] by (auto simp add: bus_device_def)
qed

lemma bus_read:
  "motherboard_readbyte a s =
     (case bus_device a of
        RAM_device \<Rightarrow> (RAM s (a AND 0x7FFF), s)
      | ROM_device \<Rightarrow> (ROM s (a AND 0x7FFF), s)
      | ACIA_device \<Rightarrow> mc6850_readbyte a s
      | No_device \<Rightarrow> (0xFF, s))"
  by (simp add: motherboard_readbyte_def bus_device_def ram_readbyte_def rom_readbyte_def
      RAMMASK_def ROMMASK_def mc6850_readbyte_def)

lemma bus_write:
  "motherboard_writebyte a d s =
     (case bus_device a of
        RAM_device \<Rightarrow> s\<lparr>RAM := (RAM s)(a AND 0x7FFF := d)\<rparr>
      | ROM_device \<Rightarrow> s
      | ACIA_device \<Rightarrow> mc6850_writebyte a d s
      | No_device \<Rightarrow> s)"
  by (simp add: motherboard_writebyte_def bus_device_def ram_writebyte_def rom_writebyte_def
      RAMMASK_def mc6850_writebyte_def)

text \<open>
  A read changes nothing but the ACIA's \<open>RDR\<close> and \<open>SR\<close> and the keyboard source.
\<close>

lemma read_byte_frame:
  "ROM (snd (read_byte a s)) = ROM s"
  "RAM (snd (read_byte a s)) = RAM s"
  "TDR (snd (read_byte a s)) = TDR s"
  "CR (snd (read_byte a s)) = CR s"
  "cycles (snd (read_byte a s)) = cycles s"
  "IRQ_PIN_LEVEL (snd (read_byte a s)) = IRQ_PIN_LEVEL s"
  "A (snd (read_byte a s)) = A s"
  "X (snd (read_byte a s)) = X s"
  "Y (snd (read_byte a s)) = Y s"
  "SP (snd (read_byte a s)) = SP s"
  "PC (snd (read_byte a s)) = PC s"
  "N_Flag (snd (read_byte a s)) = N_Flag s"
  "V_Flag (snd (read_byte a s)) = V_Flag s"
  "D_Flag (snd (read_byte a s)) = D_Flag s"
  "I_Flag (snd (read_byte a s)) = I_Flag s"
  "Z_Flag (snd (read_byte a s)) = Z_Flag s"
  "C_Flag (snd (read_byte a s)) = C_Flag s"
  "stdin_value (snd (read_byte a s)) = stdin_value s"
  "stdout (snd (read_byte a s)) = stdout s"
  "stderr (snd (read_byte a s)) = stderr s"
  by (simp_all add: read_byte_def motherboard_readbyte_def mc6850_readbyte_def
      read_keyboard_def Let_def split: list.splits)

section \<open>The opcode table\<close>

text \<open>
  The switch has one case for each of the 256 byte values, and the cases that call
  \<open>illegal_opcode\<close> are exactly the opcodes outside the documented set.
\<close>

lemma optable_distinct: "distinct (map fst optable)"
  by (simp add: optable_def)

lemma optable_length: "length optable = 256"
  by (simp add: optable_def)

lemma optable_keys: "set (map fst optable) = UNIV"
proof (rule card_eq_UNIV_imp_eq_UNIV)
  show "finite (UNIV :: 8 word set)" by simp
  have "card (set (map fst optable)) = length (map fst optable)"
    using optable_distinct by (rule distinct_card)
  then show "card (set (map fst optable)) = card (UNIV :: 8 word set)"
    by (simp add: optable_length card_word)
qed

lemma optable_illegal_entries:
  "\<forall>e \<in> set optable. (snd e = Illegal) = (fst e \<notin> set documented_opcodes)"
  unfolding optable_def documented_opcodes_def
  by simp

lemma optable_lookup:
  "\<exists>a. map_of optable opcode = Some a \<and> (a = Illegal) = (opcode \<notin> set documented_opcodes)"
proof -
  have "opcode \<in> set (map fst optable)" by (simp only: optable_keys UNIV_I)
  then obtain a where e: "(opcode, a) \<in> set optable" by auto
  then have m: "map_of optable opcode = Some a"
    using optable_distinct by simp
  from e optable_illegal_entries have "(a = Illegal) = (opcode \<notin> set documented_opcodes)"
    by fastforce
  with m show ?thesis by blast
qed

lemma dispatch_illegal:
  assumes "opcode \<notin> set documented_opcodes"
  shows "dispatch opcode s = illegal_opcode opcode s"
proof -
  from optable_lookup [of opcode] assms have "map_of optable opcode = Some Illegal"
    by auto
  then show ?thesis by (simp add: dispatch_def)
qed

section \<open>The parts of a step\<close>

lemma cpu_execute_at_fetch:
  "cpu_execute s =
     (let (opcode, s2) = fetch (at_fetch s); s3 = dispatch opcode s2 in (cycles s3, s3))"
  by (simp add: cpu_execute_def at_fetch_def irq_serviced_def lor_def lnot_def fetch_def Let_def)

lemma at_fetch_cycles: "cycles (at_fetch s) = (if irq_serviced s then 7 else 0)"
  by (simp add: at_fetch_def IRQ_VECTOR_def do_irq_IRQ)

lemma at_fetch_flags:
  "N_Flag (at_fetch s) = N_Flag s"
  "V_Flag (at_fetch s) = V_Flag s"
  "D_Flag (at_fetch s) = D_Flag s"
  "Z_Flag (at_fetch s) = Z_Flag s"
  "C_Flag (at_fetch s) = C_Flag s"
  "ROM (at_fetch s) = ROM s"
  by (simp_all add: at_fetch_def IRQ_VECTOR_def do_irq_IRQ)

lemma fetch_frame:
  "ROM (snd (fetch s)) = ROM s"
  "RAM (snd (fetch s)) = RAM s"
  "cycles (snd (fetch s)) = cycles s"
  "A (snd (fetch s)) = A s"
  "X (snd (fetch s)) = X s"
  "Y (snd (fetch s)) = Y s"
  "SP (snd (fetch s)) = SP s"
  "PC (snd (fetch s)) = PC s + 1"
  "N_Flag (snd (fetch s)) = N_Flag s"
  "V_Flag (snd (fetch s)) = V_Flag s"
  "D_Flag (snd (fetch s)) = D_Flag s"
  "I_Flag (snd (fetch s)) = I_Flag s"
  "Z_Flag (snd (fetch s)) = Z_Flag s"
  "C_Flag (snd (fetch s)) = C_Flag s"
  "stdout (snd (fetch s)) = stdout s"
  "stderr (snd (fetch s)) = stderr s"
  by (simp_all add: fetch_def read_byte_frame)

lemma cpu_reset_eq:
  "cpu_reset s =
     s\<lparr>A := 0x00, X := 0x00, Y := 0x00, SP := 0xFD,
       N_Flag := 0x00, V_Flag := 0x00, D_Flag := 0x00, I_Flag := 0x04, Z_Flag := 0x02,
       C_Flag := 0x00, PC := word (ROM s 0x7FFD) (ROM s 0x7FFC)\<rparr>"
  by (simp add: cpu_reset_def set_P_def RST_VECTOR_def read_word_vec)

text \<open>
  The step that fetches an opcode outside the documented set: the text it writes to
  \<open>stderr\<close>, the reset state it ends in, and the cycles it returns.
\<close>

lemma illegal_step:
  assumes f: "fetch (at_fetch s) = (opcode, s2)"
      and i: "opcode \<notin> set documented_opcodes"
  shows "cpu_execute s =
     (if irq_serviced s then 7 else 0,
      s2\<lparr>stderr := stderr s2 @ [CHR 0x0A] @ ''Error: illegal opcode 0x''
                    @ printf_0X 2 (nat (uint opcode)) @ '' at 0x''
                    @ printf_0X 4 (nat ((uint (PC s2) - 1) mod 2 ^ 32))
                    @ ''. Resseting CPU'' @ [CHR 0x0A],
         A := 0x00, X := 0x00, Y := 0x00, SP := 0xFD,
         N_Flag := 0x00, V_Flag := 0x00, D_Flag := 0x00, I_Flag := 0x04, Z_Flag := 0x02,
         C_Flag := 0x00, PC := word (ROM s2 0x7FFD) (ROM s2 0x7FFC)\<rparr>)"
proof -
  have c: "cycles s2 = (if irq_serviced s then 7 else 0)"
    using fetch_frame(3) [of "at_fetch s"] f by (simp add: at_fetch_cycles)
  show ?thesis
    using c by (simp add: cpu_execute_at_fetch f dispatch_illegal [OF i] illegal_opcode_def cpu_reset_eq)
qed

section \<open>Branches\<close>

lemma optable_branches:
  "map_of optable 0x10 = Some (Op (\<lambda>s. BXX (lnot (N_Flag s)) s) 2)"
  "map_of optable 0x30 = Some (Op (\<lambda>s. BXX (N_Flag s) s) 2)"
  "map_of optable 0x50 = Some (Op (\<lambda>s. BXX (lnot (V_Flag s)) s) 2)"
  "map_of optable 0x70 = Some (Op (\<lambda>s. BXX (V_Flag s) s) 2)"
  "map_of optable 0x90 = Some (Op (\<lambda>s. BXX (lnot (C_Flag s)) s) 2)"
  "map_of optable 0xB0 = Some (Op (\<lambda>s. BXX (C_Flag s) s) 2)"
  "map_of optable 0xD0 = Some (Op (\<lambda>s. BXX (lnot (Z_Flag s)) s) 2)"
  "map_of optable 0xF0 = Some (Op (\<lambda>s. BXX (Z_Flag s) s) 2)"
  by (simp_all add: optable_def)

lemma BXX_cycles:
  assumes "fetch s = (reljmp, s3)"
  shows "cycles (BXX c s) = cycles s + branch_cost (c \<noteq> 0) (PC s3) reljmp - 2"
proof -
  have "cycles s3 = cycles s" using fetch_frame(3) [of s] assms by simp
  then show ?thesis
    using assms by (simp add: BXX_def fetch_def Let_def branch_cost_def)
qed

lemma dispatch_branch:
  assumes "opcode \<in> set branch_opcodes" and "fetch s2 = (reljmp, s3)"
  shows "cycles (dispatch opcode s2)
           = cycles s2 + branch_cost (branch_taken opcode s2) (PC s3) reljmp"
  using assms(1) BXX_cycles [OF assms(2)]
  by (auto simp add: branch_opcodes_def dispatch_def optable_branches branch_taken_def lnot_def)

lemma BXX_PC:
  assumes "fetch s = (reljmp, s3)"
  shows "PC (BXX c s) = (if c \<noteq> 0 then PC s3 + scast reljmp else PC s3)"
  using assms by (simp add: BXX_def fetch_def Let_def)

lemma dispatch_branch_PC:
  assumes "opcode \<in> set branch_opcodes" and "fetch s2 = (reljmp, s3)"
  shows "PC (dispatch opcode s2)
           = (if branch_taken opcode s2 then PC s3 + scast reljmp else PC s3)"
  using assms(1) BXX_PC [OF assms(2)]
  by (auto simp add: branch_opcodes_def dispatch_def optable_branches branch_taken_def lnot_def
      Let_def)

section \<open>Subroutines\<close>

lemma optable_JSR: "map_of optable 0x20 = Some (Op (arg JSR absolute) 6)"
  by (simp add: optable_def)

lemma optable_RTS: "map_of optable 0x60 = Some (Op RTS 6)"
  by (simp add: optable_def)

lemma word_bytes: "word (ucast (drop_bit 8 w)) (ucast w) = (w :: 16 word)"
  unfolding word_def
  by (rule bit_word_eqI) (auto simp: bit_simps)

lemma stack_addr_low: "(ucast (0x0100 OR ucast (a :: 8 word) :: 16 word) :: 8 word) = a"
proof -
  have "(ucast (0x0100 OR ucast a :: 16 word) :: 8 word)
          = ucast ((0x0100 OR ucast a) AND 0xFF :: 16 word)"
    by (simp only: low_byte)
  also have "(0x0100 OR ucast a) AND (0xFF :: 16 word) = ucast a"
    by (simp add: bit.conj_disj_distrib2 ucast8_mask)
  also have "(ucast (ucast a :: 16 word) :: 8 word) = a"
    by (rule bit_word_eqI) (auto simp: bit_simps)
  finally show ?thesis .
qed

lemma stack_addr_inj:
  "((0x0100 :: 16 word) OR ucast (a :: 8 word) = 0x0100 OR ucast (b :: 8 word)) = (a = b)"
  by (metis stack_addr_low)

lemma fetch16_frame:
  "RAM (snd (fetch16 s)) = RAM s"
  "SP (snd (fetch16 s)) = SP s"
  "PC (snd (fetch16 s)) = PC s + 2"
  "cycles (snd (fetch16 s)) = cycles s"
  by (simp_all add: fetch16_def split_def Let_def fetch_frame)

lemma dispatch_JSR:
  assumes "fetch16 s2 = (target, s3)"
  shows "dispatch 0x20 s2 =
     s3\<lparr>RAM := (RAM s3)(0x0100 OR ucast (SP s3) := ucast (drop_bit 8 (PC s3 - 1)),
                         0x0100 OR ucast (SP s3 - 1) := ucast (PC s3 - 1)),
        SP := SP s3 - 2, PC := target, cycles := cycles s3 + 6\<rparr>"
  using assms by (simp add: dispatch_def optable_JSR arg_def absolute_def JSR_def push16_eq)

lemma pop_eq: "pop s = (RAM s (0x0100 OR ucast (SP s + 1)), s\<lparr>SP := SP s + 1\<rparr>)"
  by (simp add: pop_def read_byte_stack)

lemma pop16_eq:
  "pop16 s = (word (RAM s (0x0100 OR ucast (SP s + 2))) (RAM s (0x0100 OR ucast (SP s + 1))),
              s\<lparr>SP := SP s + 2\<rparr>)"
  by (simp add: pop16_def pop_eq ac_simps)

lemma dispatch_RTS:
  "dispatch 0x60 t =
     t\<lparr>SP := SP t + 2,
       PC := word (RAM t (0x0100 OR ucast (SP t + 2))) (RAM t (0x0100 OR ucast (SP t + 1))) + 1,
       cycles := cycles t + 6\<rparr>"
  by (simp add: dispatch_def optable_RTS RTS_def pop16_eq)

section \<open>The example states, evaluated\<close>

lemma optable_LDA_imm: "map_of optable 0xA9 = Some (Op (arg LDA inmediate) 2)"
  by (simp add: optable_def)

lemma branch_example_eq:
  "branch_example =
     (power_on ((\<lambda>_. 0)(0x7FFC := 0xF0, 0x7FFD := 0x00)))
       \<lparr>RAM := (\<lambda>_. 0)(0x00F0 := 0xA9, 0x00F1 := 0x00, 0x00F2 := 0xF0, 0x00F3 := 0x10),
         SR := 0x0E, SP := 0xFD, I_Flag := 0x04, Z_Flag := 0x02, PC := 0x00F0\<rparr>"
  by (simp add: branch_example_def motherboard_reset_def mc6850_reset_def cpu_reset_eq
      power_on_def word_def)

lemma branch_example_step:
  "cpu_execute branch_example = (2, branch_example\<lparr>PC := 0x00F2, Z_Flag := 1, cycles := 2\<rparr>)"
  by (simp add: branch_example_eq power_on_def cpu_execute_at_fetch at_fetch_def irq_serviced_def
      fetch_def read_byte_def motherboard_readbyte_def ram_readbyte_def RAMMASK_def
      dispatch_def optable_LDA_imm arg_def inmediate_def LDA_def update_NZ_def of_bool8_def)

lemma jsr_example_eq:
  "jsr_example =
     (power_on (\<lambda>_. 0))
       \<lparr>RAM := (\<lambda>_. 0)(0x0000 := 0x20, 0x0001 := 0x06, 0x0002 := 0x00, 0x0006 := 0x60),
         SR := 0x0E, SP := 0xFD, I_Flag := 0x04, Z_Flag := 0x02\<rparr>"
  by (simp add: jsr_example_def motherboard_reset_def mc6850_reset_def cpu_reset_eq
      power_on_def word_def)

section \<open>Decimal addition\<close>

lemma digit_cases: "x \<le> (9 :: 8 word) \<Longrightarrow> x \<in> set digits"
  unfolding digits_def
  apply simp
  apply unat_arith
  done

lemma high_nibble: "(a :: 8 word) AND 0xF0 = push_bit 4 (drop_bit 4 a)"
proof -
  have m: "(0xF0 :: 8 word) = NOT (mask 4)" by (simp add: mask_eq_exp_minus_1)
  show ?thesis unfolding m by (rule bit_word_eqI) (auto simp: bit_simps)
qed

lemma stage1:
  assumes "x \<in> set digits" "y \<in> set digits"
  shows "(adc_lo x y c > 9) = (unat x + unat y + of_bool c \<ge> 10)"
    and "adc_lo_adj (adc_lo x y c) = of_nat ((unat x + unat y + of_bool c) mod 10)"
  using assms by (cases c; auto simp add: digits_def of_bool16_def adc_lo_def adc_lo_adj_def)+

lemma stage2:
  assumes "p \<in> set digits" "q \<in> set digits"
  shows "(ucast (drop_bit 8 (adc_hi (push_bit 4 p) (push_bit 4 q) k)) :: 8 word)
           = (if unat p + unat q + of_bool k \<ge> 10 then 1 else 0)"
    and "adc_hi (push_bit 4 p) (push_bit 4 q) k AND 0x00F0
           = push_bit 4 (of_nat ((unat p + unat q + of_bool k) mod 10))"
  using assms by (cases k; auto simp add: digits_def adc_hi_def)+

lemma pack_digits:
  assumes "L < 10" "H < 10"
  shows "(ucast (of_nat L OR push_bit 4 (of_nat H) :: 16 word) :: 8 word) = of_nat (16 * H + L)"
proof -
  have "L \<in> {0, 1, 2, 3, 4, 5, 6, 7, 8, 9}" "H \<in> {0, 1, 2, 3, 4, 5, 6, 7, 8, 9}"
    using assms by auto
  then show ?thesis by auto
qed

lemma digit_carry:
  fixes t :: nat
  assumes "t \<le> 19"
  shows "(10 \<le> t) = (t div 10 = 1)" and "(\<not> 10 \<le> t) = (t div 10 = 0)"
  using assms by arith+

lemma two_digits:
  fixes u r :: nat
  assumes "r < 10" "u \<le> 19"
  shows "(10 * u + r) mod 100 = 10 * (u mod 10) + r" and "(100 \<le> 10 * u + r) = (10 \<le> u)"
proof -
  show "(100 \<le> 10 * u + r) = (10 \<le> u)" using assms by linarith
  show "(10 * u + r) mod 100 = 10 * (u mod 10) + r"
  proof (cases "u < 10")
    case True
    then show ?thesis using assms by simp
  next
    case False
    define v where "v = 10 * (u - 10) + r"
    have v: "v < 100" using assms by (simp add: v_def)
    have "10 * u + r = v + 100" using False by (simp add: v_def)
    then have "(10 * u + r) mod 100 = v" using v by simp
    moreover have "u mod 10 = u - 10" using False assms(2) by (simp add: mod_if)
    ultimately show ?thesis by (simp add: v_def)
  qed
qed

lemma bcd_sum:
  fixes x y p q c :: nat
  assumes "x \<le> 9" "y \<le> 9" "p \<le> 9" "q \<le> 9" "c \<le> 1"
  shows "((10 * p + x) + (10 * q + y) + c) mod 100
           = 10 * ((p + q + (x + y + c) div 10) mod 10) + (x + y + c) mod 10"
    and "(100 \<le> (10 * p + x) + (10 * q + y) + c) = (10 \<le> p + q + (x + y + c) div 10)"
    and "(10 \<le> x + y + c) = ((x + y + c) div 10 = 1)"
    and "(\<not> 10 \<le> x + y + c) = ((x + y + c) div 10 = 0)"
proof -
  define t where "t = x + y + c"
  define u where "u = p + q + t div 10"
  have t: "t \<le> 19" using assms by (simp add: t_def)
  have d: "t div 10 \<le> 1" using t by linarith
  have u: "u \<le> 19" using assms d by (simp add: u_def)
  have r: "t mod 10 < 10" by simp
  have e: "(10 * p + x) + (10 * q + y) + c = 10 * u + t mod 10"
  proof -
    define d where "d = t div 10"
    define m where "m = t mod 10"
    have "t = 10 * d + m" by (simp add: d_def m_def)
    then have "10 * p + x + (10 * q + y) + c = 10 * (p + q + d) + m"
      by (simp add: t_def)
    then show ?thesis by (simp add: u_def d_def m_def)
  qed
  show "((10 * p + x) + (10 * q + y) + c) mod 100
           = 10 * ((p + q + (x + y + c) div 10) mod 10) + (x + y + c) mod 10"
    unfolding e using two_digits(1) [OF r u] by (simp add: u_def t_def)
  show "(100 \<le> (10 * p + x) + (10 * q + y) + c) = (10 \<le> p + q + (x + y + c) div 10)"
    unfolding e using two_digits(2) [OF r u] by (simp add: u_def t_def)
  show "(10 \<le> x + y + c) = ((x + y + c) div 10 = 1)"
    using digit_carry(1) [OF t] by (simp add: t_def)
  show "(\<not> 10 \<le> x + y + c) = ((x + y + c) div 10 = 0)"
    using digit_carry(2) [OF t] by (simp add: t_def)
qed

lemma ADC_decimal_unfold:
  assumes "D_Flag s \<noteq> 0" and "read_byte address s = (b, s1)"
  shows "A (ADC address s) =
           ucast (adc_lo_adj (adc_lo (A s AND 0x0F) (b AND 0x0F) (C_Flag s \<noteq> 0))
                  OR (adc_hi (A s AND 0xF0) (b AND 0xF0)
                        (adc_lo (A s AND 0x0F) (b AND 0x0F) (C_Flag s \<noteq> 0) > 9) AND 0x00F0))"
    and "C_Flag (ADC address s) =
           ucast (drop_bit 8 (adc_hi (A s AND 0xF0) (b AND 0xF0)
                        (adc_lo (A s AND 0x0F) (b AND 0x0F) (C_Flag s \<noteq> 0) > 9)))"
proof -
  have c: "C_Flag s1 = C_Flag s" using read_byte_frame(17) [of address s] assms(2) by simp
  show "A (ADC address s) =
           ucast (adc_lo_adj (adc_lo (A s AND 0x0F) (b AND 0x0F) (C_Flag s \<noteq> 0))
                  OR (adc_hi (A s AND 0xF0) (b AND 0xF0)
                        (adc_lo (A s AND 0x0F) (b AND 0x0F) (C_Flag s \<noteq> 0) > 9) AND 0x00F0))"
    using assms c by (simp add: ADC_def Let_def adc_lo_def adc_lo_adj_def adc_hi_def)
  show "C_Flag (ADC address s) =
           ucast (drop_bit 8 (adc_hi (A s AND 0xF0) (b AND 0xF0)
                        (adc_lo (A s AND 0x0F) (b AND 0x0F) (C_Flag s \<noteq> 0) > 9)))"
    using assms c by (simp add: ADC_def Let_def adc_lo_def adc_lo_adj_def adc_hi_def)
qed


section \<open>The claims\<close>

text \<open>
  C2 (as amended). A call of \<open>cpu_nmi\<close> does not latch anything: it performs the whole
  entry sequence at once, whatever the I flag is. The program counter is pushed high
  byte first, then the packed flags, whose bit 4 is clear; \<open>I_Flag\<close> is set, the program
  counter is loaded little-endian from 0xFFFA/0xFFFB (ROM offsets 0x7FFA/0x7FFB), and 7
  is added to the \<open>cycles\<close> variable. The counter is a C \<open>int\<close> that \<open>cpu_nmi\<close> does not
  clear, so the statement is for a counter that the addition keeps in the range of
  \<open>int\<close>.
\<close>

theorem nmi_immediate:
  assumes "- 2147483648 \<le> cycles s" and "cycles s + 7 \<le> 2147483647"
  shows "cpu_nmi s =
     s\<lparr>RAM := (RAM s)(0x0100 OR ucast (SP s) := ucast (drop_bit 8 (PC s)),
                      0x0100 OR ucast (SP s - 1) := ucast (PC s),
                      0x0100 OR ucast (SP s - 2) := get_P s),
       SP := SP s - 3, I_Flag := 0x01,
       PC := word (ROM s 0x7FFB) (ROM s 0x7FFA),
       cycles := cycles s + 7\<rparr>
   \<and> get_P s AND 0x10 = 0"
  by (simp add: cpu_nmi_def NMI_VECTOR_def do_irq_NMI get_P_bit4)

theorem nmi_immediate_witness:
  "- 2147483648 \<le> cycles nmi_example \<and> cycles nmi_example + 7 \<le> 2147483647
   \<and> PC (cpu_nmi nmi_example) = 0x0300 \<and> SP (cpu_nmi nmi_example) = 0xFA
   \<and> I_Flag (cpu_nmi nmi_example) = 0x01 \<and> cycles (cpu_nmi nmi_example) = 7
   \<and> RAM (cpu_nmi nmi_example) 0x01FB = 0x24"
proof -
  have b: "- 2147483648 \<le> cycles nmi_example" "cycles nmi_example + 7 \<le> 2147483647"
    by (simp_all add: nmi_example_def power_on_def)
  from nmi_immediate [OF b] b show ?thesis
    by (simp add: nmi_example_def power_on_def word_def get_P_def)
qed

text \<open>
  C2 as stated fails. In \<open>nmi_example\<close> the call of \<open>cpu_nmi\<close> itself moves the program
  counter from 0x1234 to the NMI handler and pushes three bytes; the next step only
  runs the handler's first instruction (a \<open>NOP\<close>): it pushes nothing and returns 2
  cycles, not 9.
\<close>

theorem nmi_latch_counterexample:
  "PC nmi_example = 0x1234 \<and> PC (cpu_nmi nmi_example) = 0x0300
   \<and> SP (cpu_nmi nmi_example) = 0xFA
   \<and> RAM (cpu_nmi nmi_example) 0x01FD = 0x12
   \<and> fst (cpu_execute (cpu_nmi nmi_example)) = 2
   \<and> SP (snd (cpu_execute (cpu_nmi nmi_example))) = 0xFA
   \<and> PC (snd (cpu_execute (cpu_nmi nmi_example))) = 0x0301"
  by (simp add: nmi_example_def power_on_def cpu_nmi_def NMI_VECTOR_def do_irq_NMI
      cpu_execute_def lor_def lnot_def read_byte_def motherboard_readbyte_def ram_readbyte_def
      RAMMASK_def dispatch_def optable_EA word_def get_P_def)

text \<open>
  C1 (as amended). When the IRQ line is low and the I flag is clear, \<open>cpu_execute\<close>
  services the IRQ (it pushes the program counter, pushes the packed flags with bit 4
  clear, sets \<open>I_Flag\<close>, loads the program counter little-endian from 0xFFFE/0xFFFF,
  counts 7 cycles) and then goes on, in the same call, to fetch and execute the
  instruction at the new program counter; the value returned is the cycle counter after
  that instruction.
\<close>

theorem irq_then_instruction:
  assumes "IRQ_PIN_LEVEL s = 0" and "I_Flag s = 0"
  shows "cpu_execute s =
     (let s1 = s\<lparr>RAM := (RAM s)(0x0100 OR ucast (SP s) := ucast (drop_bit 8 (PC s)),
                               0x0100 OR ucast (SP s - 1) := ucast (PC s),
                               0x0100 OR ucast (SP s - 2) := get_P s),
                 SP := SP s - 3, I_Flag := 0x01,
                 PC := word (ROM s 0x7FFF) (ROM s 0x7FFE),
                 cycles := 7\<rparr>;
          (opcode, s2) = fetch s1;
          s3 = dispatch opcode s2
      in (cycles s3, s3))
   \<and> get_P s AND 0x10 = 0"
  using assms
  by (simp add: cpu_execute_def lor_def lnot_def IRQ_VECTOR_def do_irq_IRQ fetch_def get_P_bit4)

theorem irq_then_instruction_witness:
  "IRQ_PIN_LEVEL irq_example = 0 \<and> I_Flag irq_example = 0
   \<and> fst (cpu_execute irq_example) = 9
   \<and> PC (snd (cpu_execute irq_example)) = 0x0201
   \<and> SP (snd (cpu_execute irq_example)) = 0xFA
   \<and> RAM (snd (cpu_execute irq_example)) 0x01FB = 0x20"
  using irq_then_instruction [of irq_example]
  by (simp add: irq_example_def power_on_def fetch_def read_byte_def motherboard_readbyte_def
      ram_readbyte_def RAMMASK_def dispatch_def optable_EA word_def get_P_def)

text \<open>
  C1 as stated fails. In \<open>irq_example\<close> the step that services the IRQ does not return
  after the entry sequence: it also executes the \<open>NOP\<close> at the handler's address, so it
  returns 9 cycles and leaves the program counter behind that instruction, which is not
  the state the entry sequence alone produces.
\<close>

theorem irq_return_counterexample:
  "IRQ_PIN_LEVEL irq_example = 0 \<and> I_Flag irq_example = 0
   \<and> PC (do_irq IRQ_VECTOR (irq_example\<lparr>cycles := 0\<rparr>)) = 0x0200
   \<and> cycles (do_irq IRQ_VECTOR (irq_example\<lparr>cycles := 0\<rparr>)) = 7
   \<and> PC (snd (cpu_execute irq_example)) = 0x0201
   \<and> fst (cpu_execute irq_example) = 9"
  by (simp add: irq_example_def power_on_def cpu_execute_def lor_def lnot_def IRQ_VECTOR_def do_irq_IRQ
      read_byte_def motherboard_readbyte_def ram_readbyte_def RAMMASK_def
      dispatch_def optable_EA word_def get_P_def)

text \<open>
  C7. A write to 0x8000..0xEFFF or to 0xF800..0xFFFF returns the machine unchanged:
  RAM, ROM and the ACIA registers keep their values. On the bus, a read and a write
  are those of the device the address decodes to, and an address that decodes to no
  device reads 0xFF and ignores a write. No address does: the four ranges of the
  decoder cover every 16-bit address, and every address of the ACIA's range
  0xF000..0xF7FF has bit 11 clear, so the two guards of the code are never reached
  through the bus. The guard of the ACIA is also stated for the ACIA itself: called with
  bit 11 of the address set, \<open>mc6850_readbyte\<close> returns 0xFF and \<open>mc6850_writebyte\<close> does
  nothing.
\<close>

theorem rom_write_discarded:
  "((0x8000 \<le> address \<and> address \<le> 0xEFFF) \<or> (0xF800 \<le> address \<and> address \<le> 0xFFFF)
      \<longrightarrow> motherboard_writebyte address data s = s)
   \<and> motherboard_readbyte address' s =
       (case bus_device address' of
          RAM_device \<Rightarrow> (RAM s (address' AND 0x7FFF), s)
        | ROM_device \<Rightarrow> (ROM s (address' AND 0x7FFF), s)
        | ACIA_device \<Rightarrow> mc6850_readbyte address' s
        | No_device \<Rightarrow> (0xFF, s))
   \<and> motherboard_writebyte address' data s =
       (case bus_device address' of
          RAM_device \<Rightarrow> s\<lparr>RAM := (RAM s)(address' AND 0x7FFF := data)\<rparr>
        | ROM_device \<Rightarrow> s
        | ACIA_device \<Rightarrow> mc6850_writebyte address' data s
        | No_device \<Rightarrow> s)
   \<and> bus_device address' \<noteq> No_device
   \<and> (address' AND 0x0800 \<noteq> 0
      \<longrightarrow> mc6850_readbyte address' s = (0xFF, s) \<and> mc6850_writebyte address' data s = s)"
proof -
  have "\<not> address \<le> 0x7FFF" if "0x8000 \<le> address"
    using that by (simp add: word_le_nat_alt)
  moreover have "\<not> address \<le> 0x7FFF" "\<not> address \<le> 0xEFFF" "\<not> address \<le> 0xF7FF"
    if "0xF800 \<le> address"
    using that by (simp_all add: word_le_nat_alt)
  ultimately have w: "(0x8000 \<le> address \<and> address \<le> 0xEFFF) \<or> (0xF800 \<le> address \<and> address \<le> 0xFFFF)
      \<longrightarrow> motherboard_writebyte address data s = s"
    by (auto simp add: motherboard_writebyte_def rom_writebyte_def)
  have g: "address' AND 0x0800 \<noteq> 0
      \<longrightarrow> mc6850_readbyte address' s = (0xFF, s) \<and> mc6850_writebyte address' data s = s"
    by (simp add: mc6850_readbyte_def mc6850_writebyte_def)
  from w g bus_read [of address' s] bus_write [of address' data s] bus_device_mapped [of address']
  show ?thesis by blast
qed

theorem rom_write_discarded_witness:
  "motherboard_writebyte 0x8000 0x55 acia_example = acia_example
   \<and> motherboard_writebyte 0xFFFC 0x55 acia_example = acia_example
   \<and> bus_device 0xF000 = ACIA_device \<and> bus_device 0xF7FF = ACIA_device
   \<and> bus_device 0xF800 = ROM_device \<and> bus_device 0x7FFF = RAM_device
   \<and> motherboard_readbyte 0xF800 acia_example = (0x00, acia_example)
   \<and> motherboard_readbyte 0xF7FE acia_example = (0x0F, acia_example\<lparr>SR := 0x0F\<rparr>)
   \<and> mc6850_readbyte 0xF800 acia_example = (0xFF, acia_example)
   \<and> mc6850_writebyte 0xF801 0x55 acia_example = acia_example"
proof -
  have d: "bus_device 0xF000 = ACIA_device" "bus_device 0xF7FF = ACIA_device"
          "bus_device 0xF800 = ROM_device" "bus_device 0x7FFF = RAM_device"
          "bus_device 0xF7FE = ACIA_device"
    by (simp_all add: bus_device_def)
  have a: "mc6850_readbyte 0xF7FE acia_example = (0x0F, acia_example\<lparr>SR := 0x0F\<rparr>)"
    by (simp add: mc6850_readbyte_def acia_example_def power_on_def check_keyboard_ready_def)
  have r: "ROM acia_example 0x7800 = 0x00"
    by (simp add: acia_example_def power_on_def)
  from rom_write_discarded [of "0x8000" "0x55" acia_example "0xF800"]
  have 1: "motherboard_writebyte 0x8000 0x55 acia_example = acia_example"
    and 2: "motherboard_readbyte 0xF800 acia_example = (0x00, acia_example)"
    and 3: "mc6850_readbyte 0xF800 acia_example = (0xFF, acia_example)"
    by (simp_all add: d r)
  from rom_write_discarded [of "0xFFFC" "0x55" acia_example "0xF801"]
  have 4: "motherboard_writebyte 0xFFFC 0x55 acia_example = acia_example"
    and 5: "mc6850_writebyte 0xF801 0x55 acia_example = acia_example"
    by simp_all
  from rom_write_discarded [of "0x8000" "0x55" acia_example "0xF7FE"]
  have 6: "motherboard_readbyte 0xF7FE acia_example = (0x0F, acia_example\<lparr>SR := 0x0F\<rparr>)"
    by (simp add: d a)
  from 1 2 3 4 5 6 d show ?thesis by blast
qed

text \<open>
  C8. Every address of 0xF000..0xF7FF has bit 11 clear. There, a read at an even
  address sets bit 0 of \<open>SR\<close> when \<open>check_keyboard_ready\<close> reports a key, and returns
  \<open>SR\<close>; a read at an odd address takes one byte from \<open>read_keyboard\<close>, stores it in
  \<open>RDR\<close>, clears bit 0 of \<open>SR\<close> and returns the byte.
\<close>

theorem acia_read:
  assumes "0xF000 \<le> address" and "address \<le> 0xF7FF"
  shows "address AND 0x0800 = 0
    \<and> (address AND 0x0001 = 0 \<longrightarrow>
          motherboard_readbyte address s =
            (let sr = (if check_keyboard_ready s \<noteq> 0 then SR s OR 0x01 else SR s)
             in (sr, s\<lparr>SR := sr\<rparr>)))
    \<and> (address AND 0x0001 \<noteq> 0 \<longrightarrow>
          motherboard_readbyte address s =
            (let (k, s1) = read_keyboard s
             in (k, s1\<lparr>RDR := k, SR := SR s AND 0xFE\<rparr>)))"
proof -
  have w: "address AND 0x0800 = 0" using assms by (rule acia_window_bit11)
  have r: "\<not> address \<le> 0x7FFF" "\<not> address \<le> 0xEFFF"
    using assms(1) by (simp_all add: word_le_nat_alt)
  have k: "SR (snd (read_keyboard s)) = SR s"
    by (simp add: read_keyboard_def Let_def split: list.splits)
  show ?thesis
    using k by (simp add: motherboard_readbyte_def mc6850_readbyte_def w r assms Let_def split_def)
qed

theorem acia_read_witness:
  "motherboard_readbyte 0xF000 acia_example = (0x0F, acia_example\<lparr>SR := 0x0F\<rparr>)
   \<and> motherboard_readbyte 0xF7FF acia_example
       = (0x41, acia_example\<lparr>stdin_has_data := 0, RDR := 0x41\<rparr>)"
  using acia_read [of "0xF000" acia_example] acia_read [of "0xF7FF" acia_example]
  by (simp add: acia_example_def power_on_def check_keyboard_ready_def read_keyboard_def)

text \<open>
  C9. \<open>motherboard_reset\<close>, which resets the ACIA and then the CPU, is idempotent:
  a second reset leaves every component of the machine as the first one set it.
\<close>

theorem reset_idempotent:
  "motherboard_reset (motherboard_reset s) = motherboard_reset s"
  by (simp add: motherboard_reset_def mc6850_reset_def cpu_reset_def set_P_def
      read_word_def read_byte_def motherboard_readbyte_def rom_readbyte_def ROMMASK_def
      RST_VECTOR_def)

text \<open>
  C3, at the one fetch address where the code departs from it. With an erased ROM the
  reset vector is 0xFFFF and the byte there is the illegal opcode 0xFF. The step that
  fetches it resets the CPU as claimed, but the diagnostic does not name the address
  0xFFFF: the program counter has wrapped to 0 when \<open>illegal_opcode\<close> computes \<open>PC - 1\<close>
  in \<open>int\<close>, and \<open>%04X\<close> prints -1 as FFFFFFFF. (For every fetch address but 0xFFFF
  the step is as the claim says, see \<open>illegal_step\<close>.)
\<close>

theorem illegal_diagnostic_wraps:
  "PC erased_rom_reset = 0xFFFF
   \<and> fst (fetch (at_fetch erased_rom_reset)) = 0xFF
   \<and> 0xFF \<notin> set documented_opcodes
   \<and> stderr (snd (cpu_execute erased_rom_reset))
       = [CHR 0x0A] @ ''Error: illegal opcode 0xFF at 0xFFFFFFFF. Resseting CPU'' @ [CHR 0x0A]"
proof -
  have e: "erased_rom_reset =
    (power_on (\<lambda>_. 0xFF))\<lparr>SR := 0x0E, SP := 0xFD, I_Flag := 0x04, Z_Flag := 0x02, PC := 0xFFFF\<rparr>"
    by (simp add: erased_rom_reset_def motherboard_reset_def mc6850_reset_def cpu_reset_eq
        power_on_def word_def)
  have d: "0xFF \<notin> set documented_opcodes"
    by (simp add: documented_opcodes_def)
  have f: "fetch (at_fetch erased_rom_reset) = (0xFF, erased_rom_reset\<lparr>PC := 0\<rparr>)"
    by (simp add: e power_on_def at_fetch_def irq_serviced_def fetch_def read_byte_def
        motherboard_readbyte_def rom_readbyte_def)
  have h: "printf_0X 2 255 = ''FF''" "printf_0X 4 4294967295 = ''FFFFFFFF''"
    by (simp_all add: printf_0X_def hex_digits.simps hex_digit_def)
  have p: "PC erased_rom_reset = 0xFFFF" by (simp add: e)
  have o: "fst (fetch (at_fetch erased_rom_reset)) = 0xFF" by (simp add: f)
  have s: "stderr (snd (cpu_execute erased_rom_reset))
       = [CHR 0x0A] @ ''Error: illegal opcode 0xFF at 0xFFFFFFFF. Resseting CPU'' @ [CHR 0x0A]"
    using illegal_step [OF f d] h by (simp add: e power_on_def)
  from p o d s show ?thesis by blast
qed

text \<open>
  C10. A step that services no IRQ and fetches an opcode outside the documented set
  returns a cycle count of 0.
\<close>

theorem illegal_opcode_no_cycles:
  assumes "\<not> irq_serviced s"
      and "fst (fetch (at_fetch s)) \<notin> set documented_opcodes"
  shows "fst (cpu_execute s) = 0"
  using assms illegal_step [of s "fst (fetch (at_fetch s))" "snd (fetch (at_fetch s))"]
  by simp

theorem illegal_opcode_no_cycles_witness:
  "\<not> irq_serviced illegal_example
   \<and> fst (fetch (at_fetch illegal_example)) = 0x02
   \<and> fst (cpu_execute illegal_example) = 0"
proof -
  have e: "illegal_example =
    (power_on (\<lambda>_. 0))\<lparr>RAM := (\<lambda>_. 0)(0x0000 := 0x02), SR := 0x0E, SP := 0xFD,
       I_Flag := 0x04, Z_Flag := 0x02\<rparr>"
    by (simp add: illegal_example_def motherboard_reset_def mc6850_reset_def cpu_reset_eq
        power_on_def word_def)
  have n: "\<not> irq_serviced illegal_example"
    by (simp add: e power_on_def irq_serviced_def)
  have f: "fst (fetch (at_fetch illegal_example)) = 0x02"
    by (simp add: e power_on_def at_fetch_def irq_serviced_def fetch_def read_byte_def
        motherboard_readbyte_def ram_readbyte_def RAMMASK_def)
  have d: "fst (fetch (at_fetch illegal_example)) \<notin> set documented_opcodes"
    by (simp add: f documented_opcodes_def)
  from illegal_opcode_no_cycles [OF n d] n f show ?thesis by simp
qed

text \<open>
  C5 (as amended). A conditional branch adds 2 cycles to its step when the condition
  is false, 3 when it is true and the target lies in the page of the program counter
  behind the operand, 4 when the target's high byte differs. That is the whole cost of
  a step in which no IRQ is serviced; a step that first services an IRQ returns 7 more.
  The program counter ends at the target when the branch is taken, behind the operand
  otherwise.
\<close>

theorem branch_cycles:
  assumes "fetch (at_fetch s) = (opcode, s2)"
      and "opcode \<in> set branch_opcodes"
      and "fetch s2 = (reljmp, s3)"
  shows "fst (cpu_execute s) =
           (if irq_serviced s then 7 else 0) +
           (if \<not> branch_taken opcode s then 2
            else if (PC s3 + scast reljmp) AND 0xFF00 = PC s3 AND 0xFF00 then 3
            else 4)
       \<and> PC (snd (cpu_execute s))
           = (if branch_taken opcode s then PC s3 + scast reljmp else PC s3)"
proof -
  have s2: "s2 = snd (fetch (at_fetch s))" using assms(1) by simp
  have c: "cycles s2 = (if irq_serviced s then 7 else 0)"
    by (simp add: s2 fetch_frame at_fetch_cycles)
  have t: "branch_taken opcode s2 = branch_taken opcode s"
    by (simp add: branch_taken_def s2 fetch_frame at_fetch_flags)
  show ?thesis
    using dispatch_branch [OF assms(2) assms(3)] dispatch_branch_PC [OF assms(2) assms(3)]
    by (simp add: cpu_execute_at_fetch assms(1) c t branch_cost_def Let_def)
qed

theorem branch_cycles_witness:
  "fst (fetch (at_fetch (snd (cpu_execute branch_example)))) = 0xF0
   \<and> branch_taken 0xF0 (snd (cpu_execute branch_example))
   \<and> \<not> irq_serviced (snd (cpu_execute branch_example))
   \<and> fst (cpu_execute (snd (cpu_execute branch_example))) = 4
   \<and> PC (snd (cpu_execute (snd (cpu_execute branch_example)))) = 0x0104"
proof -
  let ?b = "branch_example\<lparr>PC := 0x00F2, Z_Flag := 1, cycles := 2\<rparr>"
  have b: "snd (cpu_execute branch_example) = ?b" by (simp add: branch_example_step)
  have n: "\<not> irq_serviced ?b"
    by (simp add: branch_example_eq power_on_def irq_serviced_def)
  have f: "fetch (at_fetch ?b) = (0xF0, ?b\<lparr>PC := 0x00F3, cycles := 0\<rparr>)"
    by (simp add: branch_example_eq power_on_def at_fetch_def irq_serviced_def
        fetch_def read_byte_def motherboard_readbyte_def ram_readbyte_def RAMMASK_def)
  have g: "fetch (?b\<lparr>PC := 0x00F3, cycles := 0\<rparr>) = (0x10, ?b\<lparr>PC := 0x00F4, cycles := 0\<rparr>)"
    by (simp add: branch_example_eq power_on_def
        fetch_def read_byte_def motherboard_readbyte_def ram_readbyte_def RAMMASK_def)
  have m: "0xF0 \<in> set branch_opcodes" by (simp add: branch_opcodes_def)
  have t: "branch_taken 0xF0 ?b" by (simp add: branch_taken_def)
  from branch_cycles [OF f m g] n t
  have "fst (cpu_execute ?b) = 4 \<and> PC (snd (cpu_execute ?b)) = 0x0104"
    by simp
  with n t f show ?thesis by (simp add: b)
qed

text \<open>
  C5 as stated fails for a step that services an IRQ. In \<open>branch_irq_example\<close> the
  step executes the \<open>BNE\<close> at the handler's address, whose condition is false, and
  returns 9 cycles, not 2.
\<close>

theorem branch_step_cost_counterexample:
  "irq_serviced branch_irq_example
   \<and> fst (fetch (at_fetch branch_irq_example)) = 0xD0
   \<and> \<not> branch_taken 0xD0 branch_irq_example
   \<and> fst (cpu_execute branch_irq_example) = 9
   \<and> PC (snd (cpu_execute branch_irq_example)) = 0x0202"
  by (simp add: branch_irq_example_def power_on_def cpu_execute_at_fetch at_fetch_def
      irq_serviced_def IRQ_VECTOR_def do_irq_IRQ fetch_def read_byte_def motherboard_readbyte_def
      ram_readbyte_def RAMMASK_def word_def get_P_def branch_taken_def
      dispatch_def optable_branches BXX_def lnot_def)

text \<open>
  C6. The step that fetches \<open>JSR\<close> pushes the address of the last byte of its
  operand, that is the program counter behind the operand minus 1, high byte first,
  and lowers \<open>SP\<close> by 2. An \<open>RTS\<close> that finds this \<open>SP\<close> and these two bytes pops the word
  and adds 1: the program counter is then the address of the instruction after the
  \<open>JSR\<close> (three bytes after its opcode), and \<open>SP\<close> is what it was before the \<open>JSR\<close>.
\<close>

theorem jsr_rts:
  assumes j: "fetch (at_fetch s) = (0x20, s2)" and o: "fetch16 s2 = (target, s3)"
      and r: "fetch (at_fetch t) = (0x60, t2)"
      and m: "SP (snd (cpu_execute s)) = SP t2"
             "RAM (snd (cpu_execute s)) (0x0100 OR ucast (SP t2 + 1))
                = RAM t2 (0x0100 OR ucast (SP t2 + 1))"
             "RAM (snd (cpu_execute s)) (0x0100 OR ucast (SP t2 + 2))
                = RAM t2 (0x0100 OR ucast (SP t2 + 2))"
  shows "snd (cpu_execute s) =
           s3\<lparr>RAM := (RAM s3)(0x0100 OR ucast (SP s3) := ucast (drop_bit 8 (PC s3 - 1)),
                               0x0100 OR ucast (SP s3 - 1) := ucast (PC s3 - 1)),
              SP := SP s3 - 2, PC := target, cycles := cycles s3 + 6\<rparr>
       \<and> PC s3 = PC (at_fetch s) + 3 \<and> SP s3 = SP (at_fetch s)
       \<and> PC (snd (cpu_execute t)) = PC (at_fetch s) + 3
       \<and> SP (snd (cpu_execute t)) = SP (at_fetch s)"
proof -
  have s2: "s2 = snd (fetch (at_fetch s))" using j by simp
  have s3: "s3 = snd (fetch16 s2)" using o by simp
  have p: "PC s3 = PC (at_fetch s) + 3" "SP s3 = SP (at_fetch s)"
    by (simp_all add: s3 s2 fetch16_frame fetch_frame)
  have e: "snd (cpu_execute s) =
           s3\<lparr>RAM := (RAM s3)(0x0100 OR ucast (SP s3) := ucast (drop_bit 8 (PC s3 - 1)),
                               0x0100 OR ucast (SP s3 - 1) := ucast (PC s3 - 1)),
              SP := SP s3 - 2, PC := target, cycles := cycles s3 + 6\<rparr>"
    by (simp add: cpu_execute_at_fetch j dispatch_JSR [OF o] Let_def)
  have sp: "SP t2 = SP s3 - 2" using m(1) [symmetric] by (simp add: e)
  have lo: "RAM t2 (0x0100 OR ucast (SP s3 - 1)) = ucast (PC s3 - 1)"
    using m(2) [symmetric] by (simp add: e sp)
  have hi: "RAM t2 (0x0100 OR ucast (SP s3)) = ucast (drop_bit 8 (PC s3 - 1))"
    using m(3) [symmetric] by (simp add: e sp stack_addr_inj)
  have "snd (cpu_execute t) = dispatch 0x60 t2"
    by (simp add: cpu_execute_at_fetch r Let_def)
  then have "PC (snd (cpu_execute t)) = PC s3" "SP (snd (cpu_execute t)) = SP s3"
    by (simp_all add: dispatch_RTS sp lo hi word_bytes)
  with e p show ?thesis by simp
qed

theorem jsr_rts_witness:
  "PC jsr_example = 0x0000 \<and> SP jsr_example = 0xFD
   \<and> PC (snd (cpu_execute jsr_example)) = 0x0006
   \<and> SP (snd (cpu_execute jsr_example)) = 0xFB
   \<and> RAM (snd (cpu_execute jsr_example)) 0x01FD = 0x00
   \<and> RAM (snd (cpu_execute jsr_example)) 0x01FC = 0x02
   \<and> PC (snd (cpu_execute (snd (cpu_execute jsr_example)))) = 0x0003
   \<and> SP (snd (cpu_execute (snd (cpu_execute jsr_example)))) = 0xFD"
proof -
  let ?j = "jsr_example"
  let ?s2 = "?j\<lparr>PC := 0x0001\<rparr>"
  let ?s3 = "?j\<lparr>PC := 0x0003\<rparr>"
  let ?t = "snd (cpu_execute ?j)"
  let ?t2 = "?t\<lparr>cycles := 0, PC := 0x0007\<rparr>"
  have a: "at_fetch ?j = ?j"
    by (simp add: jsr_example_eq power_on_def at_fetch_def irq_serviced_def)
  have f: "fetch (at_fetch ?j) = (0x20, ?s2)"
    unfolding a
    by (simp add: jsr_example_eq power_on_def fetch_def read_byte_def
        motherboard_readbyte_def ram_readbyte_def RAMMASK_def)
  have o: "fetch16 ?s2 = (0x0006, ?s3)"
    by (simp add: jsr_example_eq power_on_def fetch16_def fetch_def read_byte_def
        motherboard_readbyte_def ram_readbyte_def RAMMASK_def word_def)
  have t: "?t = ?j\<lparr>RAM := (RAM ?j)(0x01FD := 0x00, 0x01FC := 0x02), SP := 0xFB, PC := 0x0006,
                     cycles := 6\<rparr>"
    by (simp add: cpu_execute_at_fetch f dispatch_JSR [OF o] Let_def)
       (simp add: jsr_example_eq power_on_def)
  have at: "at_fetch ?t = ?t\<lparr>cycles := 0\<rparr>"
    by (simp add: t at_fetch_def irq_serviced_def) (simp add: jsr_example_eq)
  have r: "fetch (at_fetch ?t) = (0x60, ?t2)"
    unfolding at
    by (simp add: t fetch_def read_byte_def motherboard_readbyte_def ram_readbyte_def RAMMASK_def)
       (simp add: jsr_example_eq power_on_def)
  have m: "SP ?t = SP ?t2"
          "RAM ?t (0x0100 OR ucast (SP ?t2 + 1)) = RAM ?t2 (0x0100 OR ucast (SP ?t2 + 1))"
          "RAM ?t (0x0100 OR ucast (SP ?t2 + 2)) = RAM ?t2 (0x0100 OR ucast (SP ?t2 + 2))"
    by simp_all
  have k: "PC (snd (cpu_execute ?t)) = PC (at_fetch ?j) + 3"
          "SP (snd (cpu_execute ?t)) = SP (at_fetch ?j)"
    using jsr_rts [OF f o r m] by blast+
  have c1: "PC ?j = 0x0000" "SP ?j = 0xFD"
    by (simp_all add: jsr_example_eq power_on_def)
  have c2: "PC ?t = 0x0006" "SP ?t = 0xFB" "RAM ?t 0x01FD = 0x00" "RAM ?t 0x01FC = 0x02"
    by (simp_all add: t)
  have c3: "PC (snd (cpu_execute ?t)) = 0x0003" "SP (snd (cpu_execute ?t)) = 0xFD"
    using k by (simp_all add: a c1)
  from c1 c2 c3 show ?thesis by blast
qed

text \<open>
  C4. In decimal mode, with valid BCD bytes in \<open>A\<close> and in the operand, \<open>ADC\<close> leaves in
  \<open>A\<close> the packed BCD of the decimal sum of the two and the incoming carry, modulo 100,
  and sets \<open>C_Flag\<close> to 1 exactly when that sum is 100 or more (to 0 otherwise).
\<close>

theorem adc_decimal:
  assumes d: "D_Flag s \<noteq> 0" and r: "read_byte address s = (b, s1)"
      and va: "valid_bcd (A s)" and vb: "valid_bcd b"
  shows "A (ADC address s) = to_bcd ((dec (A s) + dec b + of_bool (C_Flag s \<noteq> 0)) mod 100)
       \<and> C_Flag (ADC address s)
           = (if 100 \<le> dec (A s) + dec b + of_bool (C_Flag s \<noteq> 0) then 1 else 0)"
proof -
  define x where "x = A s AND 0x0F"
  define y where "y = b AND 0x0F"
  define p where "p = drop_bit 4 (A s)"
  define q where "q = drop_bit 4 b"
  define c where "c = (C_Flag s \<noteq> 0)"
  define k where "k = (10 \<le> unat x + unat y + of_bool c)"
  define L where "L = (unat x + unat y + of_bool c) mod 10"
  define H where "H = (unat p + unat q + of_bool k) mod 10"
  have dg: "x \<in> set digits" "y \<in> set digits" "p \<in> set digits" "q \<in> set digits"
    using va vb by (simp_all add: valid_bcd_def x_def y_def p_def q_def digit_cases)
  have le: "unat x \<le> 9" "unat y \<le> 9" "unat p \<le> 9" "unat q \<le> 9"
    using va vb by (simp_all add: valid_bcd_def x_def y_def p_def q_def word_le_nat_alt)
  have c1: "(of_bool c :: nat) \<le> 1" by simp
  have kd: "(unat x + unat y + of_bool c) div 10 = of_bool k"
    using bcd_sum(3,4) [OF le c1] by (simp add: k_def)
  have lh: "L < 10" "H < 10" by (simp_all add: L_def H_def)
  have s1: "(adc_lo x y c > 9) = k" "adc_lo_adj (adc_lo x y c) = of_nat L"
    using stage1 [OF dg(1,2), of c] by (simp_all add: k_def L_def)
  have s2: "(ucast (drop_bit 8 (adc_hi (push_bit 4 p) (push_bit 4 q) k)) :: 8 word)
              = (if unat p + unat q + of_bool k \<ge> 10 then 1 else 0)"
           "adc_hi (push_bit 4 p) (push_bit 4 q) k AND 0x00F0 = push_bit 4 (of_nat H)"
    using stage2 [OF dg(3,4), of k] by (simp_all add: H_def)
  have a: "A (ADC address s) = ucast (of_nat L OR push_bit 4 (of_nat H) :: 16 word)"
    unfolding ADC_decimal_unfold(1) [OF d r] high_nibble
      x_def [symmetric] y_def [symmetric] p_def [symmetric] q_def [symmetric] c_def [symmetric]
      s1 s2 ..
  have cf: "C_Flag (ADC address s) = (if unat p + unat q + of_bool k \<ge> 10 then 1 else 0)"
    unfolding ADC_decimal_unfold(2) [OF d r] high_nibble
      x_def [symmetric] y_def [symmetric] p_def [symmetric] q_def [symmetric] c_def [symmetric]
      s1 s2 ..
  have da: "dec (A s) = 10 * unat p + unat x" and db: "dec b = 10 * unat q + unat y"
    by (simp_all add: dec_def p_def x_def q_def y_def)
  have sum: "(dec (A s) + dec b + of_bool c) mod 100 = 10 * H + L"
    using bcd_sum(1) [OF le c1] by (simp add: da db H_def L_def kd)
  have car: "(100 \<le> dec (A s) + dec b + of_bool c) = (10 \<le> unat p + unat q + of_bool k)"
    using bcd_sum(2) [OF le c1] by (simp add: da db kd)
  have tb: "to_bcd (10 * H + L) = of_nat (16 * H + L)"
    using lh by (simp add: to_bcd_def)
  show ?thesis
    unfolding c_def [symmetric] sum car tb a cf pack_digits [OF lh] by simp
qed

theorem adc_decimal_witness:
  "D_Flag adc_example \<noteq> 0 \<and> valid_bcd (A adc_example) \<and> valid_bcd 0x27
   \<and> read_byte 0x0005 adc_example = (0x27, adc_example)
   \<and> A (ADC 0x0005 adc_example) = 0x42 \<and> C_Flag (ADC 0x0005 adc_example) = 0
   \<and> A (ADC 0x0005 (adc_example\<lparr>A := 0x99, C_Flag := 0x01\<rparr>)) = 0x27
   \<and> C_Flag (ADC 0x0005 (adc_example\<lparr>A := 0x99, C_Flag := 0x01\<rparr>)) = 1"
proof -
  let ?t = "adc_example\<lparr>A := 0x99, C_Flag := 0x01\<rparr>"
  have d: "D_Flag adc_example \<noteq> 0" "D_Flag ?t \<noteq> 0"
    by (simp_all add: adc_example_def)
  have v: "valid_bcd (A adc_example)" "valid_bcd (A ?t)" "valid_bcd 0x27"
    by (simp_all add: adc_example_def valid_bcd_def)
  have r: "read_byte 0x0005 adc_example = (0x27, adc_example)"
          "read_byte 0x0005 ?t = (0x27, ?t)"
    by (simp_all add: adc_example_def power_on_def read_byte_def motherboard_readbyte_def
        ram_readbyte_def RAMMASK_def)
  have n: "dec 0x15 = 15" "dec 0x99 = 99" "dec 0x27 = 27"
    by (simp_all add: dec_def)
  have a: "A adc_example = 0x15" "A ?t = 0x99" "C_Flag adc_example = 0" "C_Flag ?t = 1"
    by (simp_all add: adc_example_def power_on_def)
  have b: "to_bcd 42 = 0x42" "to_bcd 27 = 0x27"
    by (simp_all add: to_bcd_def)
  from adc_decimal [OF d(1) r(1) v(1) v(3)]
  have e1: "A (ADC 0x0005 adc_example) = 0x42 \<and> C_Flag (ADC 0x0005 adc_example) = 0"
    by (simp add: a n b)
  from adc_decimal [OF d(2) r(2) v(2) v(3)]
  have e2: "A (ADC 0x0005 ?t) = 0x27 \<and> C_Flag (ADC 0x0005 ?t) = 1"
    by (simp add: a n b)
  from d(1) v(1) v(3) r(1) e1 e2 show ?thesis by (intro conjI) simp_all
qed


end
